theory Spec2Isabelle
  imports Complex_Main "HOL-Library.Word"
begin

section \<open>Bound probability of fast stars: tasks/boundprobability.py\<close>

text \<open>
  The module computes, star by star, the probability that a catalogued star is bound to the
  Galaxy. Python floats are read as real numbers throughout: the model is exact wherever the
  code's floating-point values are finite and the operation is a comparison, a negation or a
  choice between values, and idealised where the code rounds. Every \<open>raise\<close> of the
  source is a value of the type \<open>error\<close>.
\<close>

datatype error =
    ValueError
  | IndexError
  | KeyError
  | ZeroDivisionError
  | UnboundLocalError

subsection \<open>Measurement entries\<close>

text \<open>
  A measurement entry is a dictionary of the catalogue. The keys the module reads are
  \<open>value\<close>, \<open>e_value\<close>, \<open>e_lower_value\<close>, \<open>e_upper_value\<close>, \<open>derived\<close> and
  \<open>correlations\<close>; a key that may be absent is an option. The numeric fields hold the
  number that \<open>float(...)\<close> reads from the stored text. The last four fields are the
  flags and tags that the module gives when it writes a quantity.
\<close>

record quantity =
  q_value :: real
  e_value :: "real option"
  e_lower_value :: "real option"
  e_upper_value :: "real option"
  derived :: bool
  correlations :: "(string \<times> real) list option"
  upperlimit :: bool
  lowerlimit :: bool
  u_value :: string
  kind :: "string list"

text \<open>
  The two kinds of Python object that meet in the test \<open>QUANTITY.DERIVED == True\<close>: the
  key constant \<open>QUANTITY.DERIVED\<close> is the key name \<open>derived\<close>, a string, and \<open>True\<close>
  is a boolean. Python's \<open>==\<close> between a string and a boolean is false.
\<close>

datatype pyobj = PyStr string | PyBool bool

fun py_eq :: "pyobj \<Rightarrow> pyobj \<Rightarrow> bool" where
  "py_eq (PyStr a) (PyStr b) = (a = b)"
| "py_eq (PyBool a) (PyBool b) = (a = b)"
| "py_eq (PyStr a) (PyBool b) = False"
| "py_eq (PyBool a) (PyStr b) = False"

definition QUANTITY_DERIVED :: pyobj where
  "QUANTITY_DERIVED = PyStr ''derived''"

subsection \<open>The best-measurement selector\<close>

text \<open>
  One round of the loop of \<open>best_parameter\<close>: the value left in \<open>errPARAMETER[i]\<close>, which
  starts at 9999.9. The first test of the loop compares the key constant with \<open>True\<close>; it
  does not read the entry.
\<close>

definition errPARAMETER_at :: "quantity \<Rightarrow> real" where
  "errPARAMETER_at q =
     (if py_eq QUANTITY_DERIVED (PyBool True) then 9999.9
      else (case e_value q of
              Some e \<Rightarrow> e
            | None \<Rightarrow>
                (case (e_lower_value q, e_upper_value q) of
                   (Some lo, Some up) \<Rightarrow> max lo up
                 | _ \<Rightarrow> 9999.9)))"

text \<open>\<open>np.argmin\<close> on a non-empty array: the first index of the minimum.\<close>

fun argmin :: "real list \<Rightarrow> nat" where
  "argmin [] = 0"
| "argmin [x] = 0"
| "argmin (x # y # ys) =
     (let j = argmin (y # ys) in if x \<le> (y # ys) ! j then 0 else Suc j)"

text \<open>\<open>np.argmin\<close> of an empty array raises ValueError.\<close>

definition best_parameter :: "quantity list \<Rightarrow> error + (nat \<times> real)" where
  "best_parameter PARAMETER =
     (let errPARAMETER = map errPARAMETER_at PARAMETER in
      if errPARAMETER = [] then Inl ValueError
      else (let BESTI = argmin errPARAMETER in Inr (BESTI, errPARAMETER ! BESTI)))"

text \<open>A measurement with a value only, the starting point of the examples below.\<close>

definition measurement :: "real \<Rightarrow> quantity" where
  "measurement v =
     \<lparr>q_value = v, e_value = None, e_lower_value = None, e_upper_value = None,
      derived = False, correlations = None, upperlimit = False, lowerlimit = False,
      u_value = [], kind = []\<rparr>"

subsection \<open>Module constants\<close>

text \<open>The constant \<open>k\<close> of the source (km/s per kpc and arcsec/yr).\<close>

definition k_factor :: real where
  "k_factor = 4.74057"

definition errorifmissing :: real where
  "errorifmissing = 0.5"

definition confidenceintervalcoverage :: real where
  "confidenceintervalcoverage = 0.6827"

subsection \<open>Seeding and the chain-based escape-velocity sampler\<close>

text \<open>
  A star identifier is a Python string, here the list of its code points, so that
  \<open>ord\<close> is defined on every character (an Isabelle \<open>char\<close> is a byte). \<open>py\<close> embeds
  a literal.
\<close>

type_synonym pystr = "nat list"

definition py :: "string \<Rightarrow> pystr" where
  "py s = map of_char s"

definition ord :: "nat \<Rightarrow> int" where
  "ord c = int c"

text \<open>
  \<open>craft_seed\<close>: \<open>i % nSEED\<close> raises ZeroDivisionError for the empty string, at the first
  element of the comprehension. The list of character codes becomes an array of 64-bit
  integers, \<open>np.prod\<close> multiplies with wrap-around, and \<open>%\<close> on the signed result takes
  the sign of the divisor, as Isabelle's \<open>mod\<close> on \<open>int\<close> does.
\<close>

definition craft_seed :: "pystr \<Rightarrow> error + int" where
  "craft_seed SEED =
     (let nSEED = length SEED;
          indSEED = [0 ..< 2 * (nSEED + 3)]
      in if nSEED = 0 then Inl ZeroDivisionError
         else Inr (sint (prod_list
                (map (\<lambda>i. (word_of_int (ord (SEED ! (i mod nSEED))) :: 64 word)) indSEED))
              mod 4294967296))"

text \<open>
  The seed as the specification words it: the product of the character codes over the
  \<open>2*(len(NAME)+3)\<close> cyclic indices, on unbounded integers, reduced modulo \<open>2^32\<close>.
\<close>

definition seed_product :: "pystr \<Rightarrow> int" where
  "seed_product NAME =
     (\<Prod>i\<leftarrow>[0 ..< 2 * (length NAME + 3)]. ord (NAME ! (i mod length NAME))) mod 2 ^ 32"

text \<open>
  The generator \<open>np.random\<close> is a collaborator, with a global state of some type \<open>'g\<close>:
  \<open>seeded s\<close> is the state that \<open>np.random.seed(seed=s)\<close> leaves, \<open>draw g n m j\<close> the
  \<open>j\<close>-th of \<open>m\<close> numbers drawn in state \<open>g\<close> from a population of \<open>n\<close>, and
  \<open>after_draw g n m\<close> the state after the draw.
\<close>

record 'g np_random =
  seeded :: "int \<Rightarrow> 'g"
  draw :: "'g \<Rightarrow> nat \<Rightarrow> nat \<Rightarrow> nat \<Rightarrow> nat"
  after_draw :: "'g \<Rightarrow> nat \<Rightarrow> nat \<Rightarrow> 'g"

text \<open>\<open>np.random.seed\<close> accepts the integers from 0 to \<open>2^32 - 1\<close> and raises ValueError otherwise.\<close>

definition np_random_seed :: "'g np_random \<Rightarrow> int \<Rightarrow> error + 'g" where
  "np_random_seed R s = (if 0 \<le> s \<and> s < 2 ^ 32 then Inr (seeded R s) else Inl ValueError)"

text \<open>
  \<open>np.random.choice(range(n), m)\<close>: \<open>m\<close> indices below \<open>n\<close>, with replacement;
  ValueError when the population is empty and a sample is asked for.
\<close>

definition np_random_choice :: "'g np_random \<Rightarrow> 'g \<Rightarrow> nat \<Rightarrow> nat \<Rightarrow> error + (nat list \<times> 'g)" where
  "np_random_choice R g n m =
     (if n = 0 \<and> 0 < m then Inl ValueError
      else Inr (map (\<lambda>j. draw R g n m j mod n) [0 ..< m], after_draw R g n m))"

text \<open>Indexing an array with an array of indices: IndexError when one is out of bounds.\<close>

definition take_indices :: "real list \<Rightarrow> nat list \<Rightarrow> error + real list" where
  "take_indices xs js =
     (if list_all (\<lambda>j. j < length xs) js then Inr (map (\<lambda>j. xs ! j) js) else Inl IndexError)"

text \<open>
  \<open>vescsolar_sampler\<close>, with the two columns of the chain that its closure holds. It takes
  the state of the generator at the call and returns the state it leaves.
\<close>

definition vescsolar_sampler ::
  "'g np_random \<Rightarrow> real list \<Rightarrow> real list \<Rightarrow> pystr \<Rightarrow> nat \<Rightarrow> 'g
     \<Rightarrow> (error + (real list \<times> real list)) \<times> 'g" where
  "vescsolar_sampler R VESCSOLAR ALPHA NAME NSAMP g =
     (case craft_seed NAME of
        Inl e \<Rightarrow> (Inl e, g)
      | Inr s \<Rightarrow>
          (case np_random_seed R s of
             Inl e \<Rightarrow> (Inl e, g)
           | Inr g1 \<Rightarrow>
               (case np_random_choice R g1 (length VESCSOLAR) NSAMP of
                  Inl e \<Rightarrow> (Inl e, g1)
                | Inr (choice_chain, g2) \<Rightarrow>
                    (case take_indices VESCSOLAR choice_chain of
                       Inl e \<Rightarrow> (Inl e, g2)
                     | Inr vs \<Rightarrow>
                         (case take_indices ALPHA choice_chain of
                            Inl e \<Rightarrow> (Inl e, g2)
                          | Inr as \<Rightarrow> (Inr (vs, as), g2))))))"

text \<open>
  \<open>np.genfromtxt\<close> on the table of numbers in the chain file, given row by row: it raises
  ValueError when the rows do not all have the same number of columns, and returns the
  array otherwise.
\<close>

definition rectangular :: "real list list \<Rightarrow> bool" where
  "rectangular table = list_all (\<lambda>row. length row = length (hd table)) table"

definition np_genfromtxt :: "real list list \<Rightarrow> error + real list list" where
  "np_genfromtxt table = (if rectangular table then Inr table else Inl ValueError)"

text \<open>
  A column of the array read, \<open>chain[:,j]\<close>. Rows of different lengths make no array: they
  are the ValueError of the read. \<open>np.genfromtxt\<close> drops the axes of length one, so that
  a table of a single row (or of none) is read as a one-dimensional array, on which
  \<open>chain[:,j]\<close> raises IndexError; so it does on a two-dimensional array that has no column
  \<open>j\<close>.
\<close>

definition column :: "nat \<Rightarrow> real list list \<Rightarrow> error + real list" where
  "column j chain =
     (if \<not> rectangular chain then Inl ValueError
      else if length chain \<le> 1 then Inl IndexError
      else if list_all (\<lambda>row. j < length row) chain then Inr (map (\<lambda>row. row ! j) chain)
      else Inl IndexError)"

subsection \<open>The frame transform\<close>

text \<open>
  Vectors of three components and 3-by-3 matrices (the three rows). \<open>T\<close> is the product
  of the three rotations for \<open>epoch = 2000.0\<close>.
\<close>

type_synonym vec3 = "real \<times> real \<times> real"
type_synonym mat3 = "vec3 \<times> vec3 \<times> vec3"

fun dot3 :: "vec3 \<Rightarrow> vec3 \<Rightarrow> real" where
  "dot3 (a0, a1, a2) (b0, b1, b2) = a0 * b0 + a1 * b1 + a2 * b2"

fun mat_vec :: "mat3 \<Rightarrow> vec3 \<Rightarrow> vec3" where
  "mat_vec (r0, r1, r2) v = (dot3 r0 v, dot3 r1 v, dot3 r2 v)"

fun transpose3 :: "mat3 \<Rightarrow> mat3" where
  "transpose3 ((a00, a01, a02), (a10, a11, a12), (a20, a21, a22)) =
     ((a00, a10, a20), (a01, a11, a21), (a02, a12, a22))"

fun mat_mul :: "mat3 \<Rightarrow> mat3 \<Rightarrow> mat3" where
  "mat_mul (r0, r1, r2) M =
     (case transpose3 M of
        (c0, c1, c2) \<Rightarrow>
          ((dot3 r0 c0, dot3 r0 c1, dot3 r0 c2),
           (dot3 r1 c0, dot3 r1 c1, dot3 r1 c2),
           (dot3 r2 c0, dot3 r2 c1, dot3 r2 c2)))"

fun vec_add :: "vec3 \<Rightarrow> vec3 \<Rightarrow> vec3" where
  "vec_add (a0, a1, a2) (b0, b1, b2) = (a0 + b0, a1 + b1, a2 + b2)"

definition cube :: real where
  "cube = 122.932 / 180 * pi"

definition dec_ngp :: real where
  "dec_ngp = 27.12825 / 180 * pi"

definition ra_ngp :: real where
  "ra_ngp = 192.85948 / 180 * pi"

definition T_1 :: mat3 where
  "T_1 = ((cos cube, sin cube, 0), (sin cube, - cos cube, 0), (0, 0, 1))"

definition T_2 :: mat3 where
  "T_2 = ((- sin dec_ngp, 0, cos dec_ngp), (0, - 1, 0), (cos dec_ngp, 0, sin dec_ngp))"

definition T_3 :: mat3 where
  "T_3 = ((cos ra_ngp, sin ra_ngp, 0), (sin ra_ngp, - cos ra_ngp, 0), (0, 0, 1))"

definition T :: mat3 where
  "T = mat_mul (mat_mul T_1 T_2) T_3"

text \<open>The matrices \<open>A\<close> and \<open>B = np.dot(T, A)\<close> of a star at right ascension \<open>ra\<close> and declination \<open>dec\<close>.\<close>

definition A_matrix :: "real \<Rightarrow> real \<Rightarrow> mat3" where
  "A_matrix ra dec =
     (let cosdec = cos dec; sindec = sin dec; cosra = cos ra; sinra = sin ra in
      ((cosra * cosdec, - sinra, - cosra * sindec),
       (sinra * cosdec, cosra, - sinra * sindec),
       (sindec, 0, cosdec)))"

definition B_matrix :: "real \<Rightarrow> real \<Rightarrow> mat3" where
  "B_matrix ra dec = mat_mul T (A_matrix ra dec)"

subsection \<open>Sample matrices\<close>

text \<open>
  Modelled from the spec: the shapes of the two sample matrices. The samplers
  \<open>kinematic_sampler\<close> and \<open>solarmotion_sampler\<close> are in \<open>utils\<close>, which is not among the
  sources; the specification gives an N-by-4 matrix for the first (columns 0 to 3:
  distance, the two proper motions, radial velocity) and five columns for the second
  (columns 0 to 4: solar radius, disk speed, U, V, W). A row of each is a record, so that
  the columns the engine reads and writes always exist.
\<close>

record kine_row =
  k0 :: real
  k1 :: real
  k2 :: real
  k3 :: real

record solar_row =
  s0 :: real
  s1 :: real
  s2 :: real
  s3 :: real
  s4 :: real

text \<open>
  \<open>kine_samples_corrected\<close> before the solar reflex: the copy of the samples with columns 1
  and 2 multiplied by \<open>k*kine_samples[:,0]\<close>.
\<close>

definition proper_motion_to_velocity :: "kine_row list \<Rightarrow> kine_row list" where
  "proper_motion_to_velocity kine_samples =
     map (\<lambda>r. r\<lparr>k1 := k1 r * (k_factor * k0 r), k2 := k2 r * (k_factor * k0 r)\<rparr>) kine_samples"

text \<open>
  \<open>kine_vhel\<close> is a view of columns 2 to 4 of \<open>kine_samples_solar\<close>, so adding the disk
  speed to its column 1 changes column 3 of \<open>kine_samples_solar\<close> itself.
\<close>

definition add_vdisk :: "solar_row list \<Rightarrow> solar_row list" where
  "add_vdisk kine_samples_solar = map (\<lambda>s. s\<lparr>s3 := s3 s + s1 s\<rparr>) kine_samples_solar"

definition kine_vhel_view :: "solar_row list \<Rightarrow> vec3 list" where
  "kine_vhel_view kine_samples_solar = map (\<lambda>s. (s2 s, s3 s, s4 s)) kine_samples_solar"

text \<open>\<open>kine_D = np.einsum('ei,ni->ne', B.T, kine_vhel)\<close>: the solar reflex of every sample.\<close>

definition kine_D_of :: "mat3 \<Rightarrow> vec3 list \<Rightarrow> vec3 list" where
  "kine_D_of B kine_vhel = map (\<lambda>v. mat_vec (transpose3 B) v) kine_vhel"

text \<open>
  Assignment of a one-dimensional array to a column, \<open>M[:,c] = vals\<close>: element by element
  when the lengths agree, the single value to every row when \<open>vals\<close> has length 1, and
  ValueError (the shapes cannot be broadcast) otherwise.
\<close>

definition assign_column ::
  "(kine_row \<Rightarrow> real \<Rightarrow> kine_row) \<Rightarrow> real list \<Rightarrow> kine_row list \<Rightarrow> error + kine_row list" where
  "assign_column upd vals M =
     (if length vals = length M then Inr (map2 upd M vals)
      else if length vals = 1 then Inr (map (\<lambda>r. upd r (hd vals)) M)
      else Inl ValueError)"

text \<open>
  The two substitutions of the solar reflex, by the flags \<open>havepropermotions\<close> and
  \<open>havevelocities\<close>.
\<close>

definition reflex_substitution ::
  "bool \<Rightarrow> bool \<Rightarrow> vec3 list \<Rightarrow> kine_row list \<Rightarrow> error + kine_row list" where
  "reflex_substitution havepropermotions havevelocities kine_D kine_samples_corrected =
     (case (if havepropermotions = False
            then (case assign_column (\<lambda>r v. r\<lparr>k1 := v\<rparr>)
                         (map (\<lambda>d. - 1 * fst (snd d)) kine_D) kine_samples_corrected of
                    Inl e \<Rightarrow> Inl e
                  | Inr M1 \<Rightarrow>
                      assign_column (\<lambda>r v. r\<lparr>k2 := v\<rparr>) (map (\<lambda>d. - 1 * snd (snd d)) kine_D) M1)
            else Inr kine_samples_corrected) of
        Inl e \<Rightarrow> Inl e
      | Inr M2 \<Rightarrow>
          (if havevelocities = False
           then assign_column (\<lambda>r v. r\<lparr>k3 := v\<rparr>) (map (\<lambda>d. - 1 * fst d) kine_D) M2
           else Inr M2))"

text \<open>
  A row after both substitutions, given the reflex vector of its sample: what
  \<open>reflex_substitution\<close> leaves when there are as many reflex vectors as rows.
\<close>

definition substituted :: "bool \<Rightarrow> bool \<Rightarrow> kine_row \<Rightarrow> vec3 \<Rightarrow> kine_row" where
  "substituted havepm havevel r d =
     (let r1 = (if havepm = False then r\<lparr>k1 := - 1 * fst (snd d), k2 := - 1 * snd (snd d)\<rparr>
                else r)
      in if havevel = False then r1\<lparr>k3 := - 1 * fst d\<rparr> else r1)"

text \<open>
  Element-wise arithmetic of two one-dimensional arrays, with the same broadcasting rule.
\<close>

definition zip_with :: "('a \<Rightarrow> 'b \<Rightarrow> 'c) \<Rightarrow> 'a list \<Rightarrow> 'b list \<Rightarrow> error + 'c list" where
  "zip_with f xs ys =
     (if length xs = length ys then Inr (map2 f xs ys)
      else if length xs = 1 then Inr (map (\<lambda>y. f (hd xs) y) ys)
      else if length ys = 1 then Inr (map (\<lambda>x. f x (hd ys)) xs)
      else Inl ValueError)"

text \<open>
  \<open>kine_samples_vhel\<close> and its norm \<open>kine_vgrf\<close>: the velocity \<open>kine_vhel\<close> plus \<open>B\<close>
  applied to (radial velocity, the two tangential velocities).
\<close>

definition kine_samples_vhel_of :: "mat3 \<Rightarrow> vec3 list \<Rightarrow> kine_row list \<Rightarrow> error + vec3 list" where
  "kine_samples_vhel_of B kine_vhel kine_samples_corrected =
     zip_with (\<lambda>v r. vec_add v (mat_vec B (k3 r, k1 r, k2 r))) kine_vhel kine_samples_corrected"

definition kine_vgrf_of :: "vec3 list \<Rightarrow> real list" where
  "kine_vgrf_of kine_samples_vhel =
     map (\<lambda>v. sqrt ((fst v)\<^sup>2 + (fst (snd v))\<^sup>2 + (snd (snd v))\<^sup>2)) kine_samples_vhel"

text \<open>The galactocentric radius of every sample, by the law of cosines.\<close>

definition kine_galrad_of :: "real \<Rightarrow> real \<Rightarrow> solar_row list \<Rightarrow> kine_row list \<Rightarrow> error + real list" where
  "kine_galrad_of cosb cosl kine_samples_solar kine_samples_corrected =
     zip_with (\<lambda>s r. sqrt ((s0 s)\<^sup>2 + (k0 r)\<^sup>2 - 2 * s0 s * k0 r * cosb * cosl))
       kine_samples_solar kine_samples_corrected"

subsection \<open>Escape velocity\<close>

text \<open>
  What the test of \<open>vescmethod\<close> at the head of \<open>do_boundprobability\<close> leaves bound:
  the names imported from galpy, or the sampler with the two columns of the chain, or
  nothing (the warning branch binds no name).
\<close>

datatype vesc_policy =
    Galpy
  | Williams2017 "real list" "real list"
  | Unresolved

text \<open>
  The chain-based escape velocity, \<open>kine_vesc_solar*np.power(kine_galrad/kine_samples_solar[:,0],
  -kine_alpha/2.0)\<close>. \<open>np.power\<close> is a parameter.
\<close>

definition williams_vesc ::
  "(real \<Rightarrow> real \<Rightarrow> real) \<Rightarrow> real list \<Rightarrow> real list \<Rightarrow> real list \<Rightarrow> solar_row list
     \<Rightarrow> error + real list" where
  "williams_vesc np_power kine_vesc_solar kine_alpha kine_galrad kine_samples_solar =
     (case zip_with (\<lambda>r s. r / s0 s) kine_galrad kine_samples_solar of
        Inl e \<Rightarrow> Inl e
      | Inr ratio \<Rightarrow>
          (case zip_with np_power ratio (map (\<lambda>a. - a / 2) kine_alpha) of
             Inl e \<Rightarrow> Inl e
           | Inr p \<Rightarrow> zip_with (\<lambda>v x. v * x) kine_vesc_solar p))"

subsection \<open>The bound probability\<close>

text \<open>\<open>np.where(kine_vesc > kine_vgrf)[0].shape[0]\<close>: the number of bound samples.\<close>

definition kine_bound_n_of :: "real list \<Rightarrow> real list \<Rightarrow> error + nat" where
  "kine_bound_n_of kine_vesc kine_vgrf =
     (case zip_with (\<lambda>e v. e > v) kine_vesc kine_vgrf of
        Inl e \<Rightarrow> Inl e
      | Inr bs \<Rightarrow> Inr (length (filter (\<lambda>b. b) bs)))"

text \<open>
  The three probabilities at which \<open>beta.ppf\<close> is called, and the three percentiles, for
  \<open>kine_bound_n\<close> bound samples out of \<open>kine_samples_n\<close>. \<open>beta.ppf\<close> (scipy) is a
  parameter: \<open>ppf q a b\<close>.
\<close>

definition percentile_levels :: "real \<Rightarrow> real list" where
  "percentile_levels coverage = [coverage / 2, 0.5, 1 - coverage / 2]"

definition kine_betaa :: "nat \<Rightarrow> real" where
  "kine_betaa kine_bound_n = real kine_bound_n + 0.5"

definition kine_betab :: "nat \<Rightarrow> nat \<Rightarrow> real" where
  "kine_betab kine_samples_n kine_bound_n = real_of_int (int kine_samples_n - int kine_bound_n) + 0.5"

definition kine_bound_percentiles :: "(real \<Rightarrow> real \<Rightarrow> real \<Rightarrow> real) \<Rightarrow> nat \<Rightarrow> nat \<Rightarrow> real list" where
  "kine_bound_percentiles ppf kine_samples_n kine_bound_n =
     map (\<lambda>q. ppf q (kine_betaa kine_bound_n) (kine_betab kine_samples_n kine_bound_n))
       (percentile_levels confidenceintervalcoverage)"

text \<open>
  What is assumed of \<open>beta.ppf\<close> where the order of percentiles matters: for valid shape
  parameters it does not decrease in the probability, as every quantile function.
\<close>

definition quantile_monotone :: "(real \<Rightarrow> real \<Rightarrow> real \<Rightarrow> real) \<Rightarrow> bool" where
  "quantile_monotone ppf =
     (\<forall>a b q1 q2. 0 < a \<and> 0 < b \<and> 0 \<le> q1 \<and> q1 \<le> q2 \<and> q2 \<le> 1
        \<longrightarrow> ppf q1 a b \<le> ppf q2 a b)"

subsection \<open>The catalogue\<close>

text \<open>
  A catalogue entry: the lists of quantities under the keys the module reads or writes, a
  key that is absent being \<open>None\<close>. Right ascension and declination are kept as the
  \<open>value\<close> texts of their quantities.
\<close>

record entry =
  RA :: "string list option"
  DEC :: "string list option"
  PARALLAX :: "quantity list option"
  PROPER_MOTION_RA :: "quantity list option"
  PROPER_MOTION_DEC :: "quantity list option"
  VELOCITY :: "quantity list option"
  LUM_DIST :: "quantity list option"
  DISTANCE_PRIOR_LENGTH_SCALE :: "quantity list option"
  BOUND_PROBABILITY :: "quantity list option"

subsection \<open>Kinematic inputs of a star\<close>

text \<open>\<open>xs[i]\<close> on a list: IndexError out of range.\<close>

definition item :: "'a list \<Rightarrow> nat \<Rightarrow> error + 'a" where
  "item xs i = (if i < length xs then Inr (xs ! i) else Inl IndexError)"

text \<open>\<open>M[i,j] = M[j,i] = v\<close> on the correlation matrix.\<close>

definition set_sym :: "real list list \<Rightarrow> nat \<Rightarrow> nat \<Rightarrow> real \<Rightarrow> real list list" where
  "set_sym M i j v =
     (let M1 = M[j := (M ! j)[i := v]] in M1[i := (M1 ! i)[j := v]])"

text \<open>
  \<open>QUANTITY.CORRELATIONS in catalog.entries[name][FASTSTARS.PARALLAX]\<close> looks the key name
  up in the list of the parallax quantities: it compares the string with every dictionary
  of the list, and a string equals no dictionary.
\<close>

definition key_in_quantity_list :: "string \<Rightarrow> quantity list \<Rightarrow> bool" where
  "key_in_quantity_list key qs = list_ex (\<lambda>q. False) qs"

record kine_inputs =
  kine_values :: "real list"
  kine_errors :: "real list"
  kine_corr :: "real list list"
  kine_prior :: "(real \<times> real) option"
  haveparallax :: bool
  havepropermotions :: bool
  havevelocities :: bool

text \<open>
  The storage at the head of the loop body. \<open>kine_prior\<close> is the pair \<open>(kine_L, kine_k)\<close>;
  it is \<open>None\<close> when a division by zero of numpy has left \<open>inf\<close> or \<open>nan\<close> in one of the
  two, which the code passes on to the sampler without raising.
\<close>

definition initial_inputs :: kine_inputs where
  "initial_inputs =
     \<lparr>kine_values = [0, 0, 0, 0],
      kine_errors = [9999.9, 9999.9, 9999.9, 9999.9],
      kine_corr = [[1, 0, 0, 0], [0, 1, 0, 0], [0, 0, 1, 0], [0, 0, 0, 1]],
      kine_prior = Some (1.35, 3.0),
      haveparallax = False, havepropermotions = False, havevelocities = False\<rparr>"

definition prior_length_scale :: "entry \<Rightarrow> kine_inputs \<Rightarrow> error + kine_inputs" where
  "prior_length_scale e K =
     (case DISTANCE_PRIOR_LENGTH_SCALE e of
        None \<Rightarrow> Inr K
      | Some qs \<Rightarrow>
          (case item qs 0 of
             Inl err \<Rightarrow> Inl err
           | Inr q \<Rightarrow> Inr (K\<lparr>kine_prior := Some (q_value q, 3.0)\<rparr>)))"

definition parallax_corr_step :: "real list list \<Rightarrow> string \<times> real \<Rightarrow> real list list" where
  "parallax_corr_step M c =
     (let M1 = (if fst c = ''propermotionra'' then set_sym M 0 1 (snd c) else M)
      in if fst c = ''propermotiondec'' then set_sym M1 0 2 (snd c) else M1)"

definition parallax_inputs :: "entry \<Rightarrow> kine_inputs \<Rightarrow> error + kine_inputs" where
  "parallax_inputs e K =
     (case PARALLAX e of
        None \<Rightarrow> Inr K
      | Some ps \<Rightarrow>
          (case item ps 0 of
             Inl err \<Rightarrow> Inl err
           | Inr p \<Rightarrow>
               (case e_value p of
                  None \<Rightarrow> Inl KeyError
                | Some ev \<Rightarrow>
                    (let K1 = K\<lparr>haveparallax := True,
                                 kine_values := (kine_values K)[0 := q_value p],
                                 kine_errors := (kine_errors K)[0 := ev]\<rparr>
                     in if key_in_quantity_list ''correlations'' ps
                        then (case correlations p of
                                None \<Rightarrow> Inl KeyError
                              | Some parallax_corr \<Rightarrow>
                                  Inr (K1\<lparr>kine_corr :=
                                    foldl parallax_corr_step (kine_corr K1) parallax_corr\<rparr>))
                        else Inr K1))))"

definition propermotion_corr_step :: "real list list \<Rightarrow> string \<times> real \<Rightarrow> real list list" where
  "propermotion_corr_step M c =
     (if fst c = ''propermotiondec'' then set_sym M 1 2 (snd c) else M)"

definition propermotion_inputs :: "entry \<Rightarrow> kine_inputs \<Rightarrow> error + kine_inputs" where
  "propermotion_inputs e K =
     (case (PROPER_MOTION_RA e, PROPER_MOTION_DEC e) of
        (Some pmra, Some pmdec) \<Rightarrow>
          (case best_parameter pmra of
             Inl err \<Rightarrow> Inl err
           | Inr (best_propermotion_i, _) \<Rightarrow>
               (case item pmra best_propermotion_i of
                  Inl err \<Rightarrow> Inl err
                | Inr qra \<Rightarrow>
                    (case item pmdec best_propermotion_i of
                       Inl err \<Rightarrow> Inl err
                     | Inr qdec \<Rightarrow>
                         (let v1 = q_value qra; v2 = q_value qdec;
                              errs = (case (e_value qra, e_value qdec) of
                                        (Some e1, Some e2) \<Rightarrow> (e1, e2)
                                      | _ \<Rightarrow> (errorifmissing * v1, errorifmissing * v2));
                              corr = (case (correlations qra, correlations qdec) of
                                        (Some propermotionra_corr, Some _) \<Rightarrow>
                                          foldl propermotion_corr_step (kine_corr K)
                                            propermotionra_corr
                                      | _ \<Rightarrow> set_sym (set_sym (kine_corr K) 0 2 0) 0 1 0)
                          in Inr (K\<lparr>havepropermotions := True,
                                    kine_values := (kine_values K)[1 := v1, 2 := v2],
                                    kine_errors := (kine_errors K)[1 := fst errs, 2 := snd errs],
                                    kine_corr := corr\<rparr>)))))
      | _ \<Rightarrow> Inr K)"

definition velocity_inputs :: "entry \<Rightarrow> kine_inputs \<Rightarrow> error + kine_inputs" where
  "velocity_inputs e K =
     (case VELOCITY e of
        None \<Rightarrow> Inr K
      | Some vs \<Rightarrow>
          (case best_parameter vs of
             Inl err \<Rightarrow> Inl err
           | Inr (best_velocity_i, best_velocity_err) \<Rightarrow>
               (case item vs best_velocity_i of
                  Inl err \<Rightarrow> Inl err
                | Inr q \<Rightarrow>
                    (let v3 = q_value q;
                         e3 = (if best_velocity_err < 9999.0 then best_velocity_err
                               else errorifmissing * v3)
                     in Inr (K\<lparr>havevelocities := True,
                               kine_values := (kine_values K)[3 := v3],
                               kine_errors := (kine_errors K)[3 := e3]\<rparr>)))))"

text \<open>
  The override of the distance prior by a photometric distance. When the selector's error
  is taken, \<open>kine_sigma\<close> is a numpy float and a division by zero gives \<open>inf\<close> or \<open>nan\<close>;
  when it is not, all operands are Python floats and a division by zero raises.
\<close>

definition lumdist_prior :: "quantity list \<Rightarrow> error + (real \<times> real) option" where
  "lumdist_prior lumdist =
     (case best_parameter lumdist of
        Inl err \<Rightarrow> Inl err
      | Inr (best_lumdist_i, best_lumdist_err) \<Rightarrow>
          (case item lumdist best_lumdist_i of
             Inl err \<Rightarrow> Inl err
           | Inr q \<Rightarrow>
               (let kine_mu = q_value q in
                if best_lumdist_err < 9999.0
                then (let kine_sigma = best_lumdist_err in
                      if kine_mu = 0 then Inr None
                      else (let kine_L = kine_sigma\<^sup>2 / kine_mu in
                            if kine_L = 0 then Inr None
                            else Inr (Some (kine_L, kine_mu / kine_L))))
                else (let kine_sigma = errorifmissing * kine_mu in
                      if kine_mu = 0 then Inl ZeroDivisionError
                      else (let kine_L = kine_sigma\<^sup>2 / kine_mu in
                            if kine_L = 0 then Inl ZeroDivisionError
                            else Inr (Some (kine_L, kine_mu / kine_L)))))))"

definition lumdist_inputs :: "entry \<Rightarrow> kine_inputs \<Rightarrow> error + kine_inputs" where
  "lumdist_inputs e K =
     (case LUM_DIST e of
        None \<Rightarrow> Inr K
      | Some lumdist \<Rightarrow>
          (case lumdist_prior lumdist of
             Inl err \<Rightarrow> Inl err
           | Inr pr \<Rightarrow> Inr (K\<lparr>kine_prior := pr\<rparr>)))"

text \<open>Sequencing of two steps that may raise.\<close>

definition and_then :: "error + 'a \<Rightarrow> ('a \<Rightarrow> error + 'b) \<Rightarrow> error + 'b" where
  "and_then r f = (case r of Inl err \<Rightarrow> Inl err | Inr x \<Rightarrow> f x)"

definition kinematic_inputs :: "entry \<Rightarrow> error + kine_inputs" where
  "kinematic_inputs e =
     and_then (and_then (and_then (and_then (prior_length_scale e initial_inputs)
       (parallax_inputs e)) (propermotion_inputs e)) (velocity_inputs e)) (lumdist_inputs e)"

subsection \<open>The engine\<close>

text \<open>
  The collaborators of the engine, as parameters: the catalogue's \<open>add_entry\<close> (an
  exception is \<open>Inl\<close>), astropy's \<open>SkyCoord\<close> (right ascension, declination, galactic
  longitude and latitude, in radians), the two samplers of \<open>utils\<close>, the generator of
  numpy, \<open>np.power\<close>, galpy's \<open>vesc\<close> for \<open>MWPotential2014\<close>, scipy's \<open>beta.ppf\<close> and
  the mean and standard deviation of an array. The samplers read and write the generator.

  Modelled from the spec: \<open>solarmotion_sampler\<close>, absent from the sources, returns one row
  for each of the \<open>n\<close> samples asked for. It is given here as the function from the sample
  index to the row, of which the engine takes the indices below \<open>n\<close>; every sampler that
  returns \<open>n\<close> rows is of this form. \<open>kinematic_sampler\<close>, absent as well, returns any
  number of rows, which is the sample count of the star.
\<close>

record 'g env =
  add_entry :: "(pystr \<times> entry) list \<Rightarrow> pystr \<Rightarrow> error + pystr"
  SkyCoord :: "string \<Rightarrow> error + (real \<times> real \<times> real \<times> real)"
  kinematic_sampler ::
    "pystr \<Rightarrow> real list \<Rightarrow> real list \<Rightarrow> real list list \<Rightarrow> (real \<times> real) option \<Rightarrow> 'g
       \<Rightarrow> kine_row list \<times> 'g"
  solarmotion_sampler :: "pystr \<Rightarrow> nat \<Rightarrow> 'g \<Rightarrow> (nat \<Rightarrow> solar_row) \<times> 'g"
  rng :: "'g np_random"
  np_power :: "real \<Rightarrow> real \<Rightarrow> real"
  galpy_vesc :: "real \<Rightarrow> real"
  beta_ppf :: "real \<Rightarrow> real \<Rightarrow> real \<Rightarrow> real"
  np_mean :: "real list \<Rightarrow> real"
  np_std :: "real list \<Rightarrow> real"

text \<open>The position of the star, from the first right ascension and declination.\<close>

definition sky_position :: "'g env \<Rightarrow> entry \<Rightarrow> error + (real \<times> real \<times> real \<times> real)" where
  "sky_position E e =
     (case (RA e, DEC e) of
        (Some ras, Some decs) \<Rightarrow>
          (case item ras 0 of
             Inl err \<Rightarrow> Inl err
           | Inr ra0 \<Rightarrow>
               (case item decs 0 of
                  Inl err \<Rightarrow> Inl err
                | Inr dec0 \<Rightarrow> SkyCoord E (ra0 @ dec0)))
      | _ \<Rightarrow> Inl KeyError)"

text \<open>
  The arrays of a star, from the samples to the total velocity and the galactocentric
  radius (the lines from \<open>kine_samples_corrected = np.copy(kine_samples)\<close> to \<open>kine_galrad\<close>).
\<close>

record star_arrays =
  kine_samples_corrected :: "kine_row list"
  kine_samples_solar :: "solar_row list"
  kine_D :: "vec3 list"
  kine_vgrf :: "real list"
  kine_galrad :: "real list"

definition star_arrays_of ::
  "mat3 \<Rightarrow> real \<Rightarrow> real \<Rightarrow> bool \<Rightarrow> bool \<Rightarrow> kine_row list \<Rightarrow> solar_row list
     \<Rightarrow> error + star_arrays" where
  "star_arrays_of B cosb cosl havepm havevel kine_samples solar_drawn =
     (let solar = add_vdisk solar_drawn;
          kine_vhel = kine_vhel_view solar;
          D = kine_D_of B kine_vhel
      in case reflex_substitution havepm havevel D (proper_motion_to_velocity kine_samples) of
           Inl err \<Rightarrow> Inl err
         | Inr corrected \<Rightarrow>
             (case kine_samples_vhel_of B kine_vhel corrected of
                Inl err \<Rightarrow> Inl err
              | Inr kine_samples_vhel \<Rightarrow>
                  (case kine_galrad_of cosb cosl solar corrected of
                     Inl err \<Rightarrow> Inl err
                   | Inr galrad \<Rightarrow>
                       Inr \<lparr>kine_samples_corrected = corrected, kine_samples_solar = solar,
                            kine_D = D, kine_vgrf = kine_vgrf_of kine_samples_vhel,
                            kine_galrad = galrad\<rparr>)))"

text \<open>
  The escape velocity of every sample. Under the policy that the warning branch leaves,
  \<open>kine_vesc\<close> is assigned by neither branch, and its first use raises UnboundLocalError.
\<close>

definition kine_vesc_of ::
  "'g env \<Rightarrow> vesc_policy \<Rightarrow> pystr \<Rightarrow> nat \<Rightarrow> star_arrays \<Rightarrow> 'g \<Rightarrow> (error + real list) \<times> 'g" where
  "kine_vesc_of E policy name kine_samples_n S g =
     (case policy of
        Galpy \<Rightarrow>
          (zip_with (\<lambda>r s. galpy_vesc E r * s1 s) (kine_galrad S) (kine_samples_solar S), g)
      | Williams2017 VESCSOLAR ALPHA \<Rightarrow>
          (case vescsolar_sampler (rng E) VESCSOLAR ALPHA name kine_samples_n g of
             (Inl err, g1) \<Rightarrow> (Inl err, g1)
           | (Inr (kine_vesc_solar, kine_alpha), g1) \<Rightarrow>
               (williams_vesc (np_power E) kine_vesc_solar kine_alpha (kine_galrad S)
                  (kine_samples_solar S), g1))
      | Unresolved \<Rightarrow> (Inl UnboundLocalError, g))"

text \<open>\<open>add_quantity\<close> appends a quantity to the list under a key, which it makes when absent.\<close>

definition add_quantity :: "quantity list option \<Rightarrow> quantity \<Rightarrow> quantity list option" where
  "add_quantity qs q = Some ((case qs of None \<Rightarrow> [] | Some xs \<Rightarrow> xs) @ [q])"

text \<open>The four writes that end the loop body.\<close>

definition store_outcomes ::
  "'g env \<Rightarrow> entry \<Rightarrow> kine_inputs \<Rightarrow> star_arrays \<Rightarrow> real list \<Rightarrow> real list \<Rightarrow> entry" where
  "store_outcomes E e K S kine_vesc percentiles =
     (let boundprobability_upperlimit = (havepropermotions K = False \<or> havevelocities K = False);
          e1 = e\<lparr>BOUND_PROBABILITY := add_quantity (BOUND_PROBABILITY e)
                 ((measurement (percentiles ! 1))
                    \<lparr>e_lower_value := Some (percentiles ! 1 - percentiles ! 0),
                     e_upper_value := Some (percentiles ! 2 - percentiles ! 1),
                     upperlimit := boundprobability_upperlimit, derived := True\<rparr>)\<rparr>;
          e2 = e1\<lparr>VELOCITY := add_quantity (VELOCITY e1)
                 ((measurement (np_mean E kine_vesc))
                    \<lparr>e_value := Some (np_std E kine_vesc), u_value := ''km/s'', derived := True,
                     kind := [''galactocentric'', ''escape'']\<rparr>)\<rparr>;
          e3 = e2\<lparr>VELOCITY := add_quantity (VELOCITY e2)
                 ((measurement (np_mean E (kine_vgrf S)))
                    \<lparr>e_value := Some (np_std E (kine_vgrf S)), u_value := ''km/s'',
                     lowerlimit := boundprobability_upperlimit, derived := True,
                     kind := [''galactocentric'', ''total'']\<rparr>)\<rparr>
      in if haveparallax K = True
         then e3\<lparr>LUM_DIST := add_quantity (LUM_DIST e3)
                 ((measurement (np_mean E (map k0 (kine_samples_corrected S))))
                    \<lparr>e_value := Some (np_std E (map k0 (kine_samples_corrected S))),
                     u_value := ''kpc'', derived := True\<rparr>)\<rparr>
         else e3)"

text \<open>
  The body of the loop for an entry with a position and a distance: the entry with the
  derived quantities, or the exception that ends the run; and the state of the generator.
\<close>

definition process_star ::
  "'g env \<Rightarrow> vesc_policy \<Rightarrow> pystr \<Rightarrow> entry \<Rightarrow> 'g \<Rightarrow> (error + entry) \<times> 'g" where
  "process_star E policy name e g =
     (case sky_position E e of
        Inl err \<Rightarrow> (Inl err, g)
      | Inr (ra, dec, l, b) \<Rightarrow>
          (case kinematic_inputs e of
             Inl err \<Rightarrow> (Inl err, g)
           | Inr K \<Rightarrow>
               (case kinematic_sampler E name (kine_values K) (kine_errors K) (kine_corr K)
                       (kine_prior K) g of
                  (kine_samples, g1) \<Rightarrow>
                    (let kine_samples_n = length kine_samples in
                     case solarmotion_sampler E name kine_samples_n g1 of
                       (solar_at, g2) \<Rightarrow>
                         (case star_arrays_of (B_matrix ra dec) (cos b) (cos l)
                                 (havepropermotions K) (havevelocities K) kine_samples
                                 (map solar_at [0 ..< kine_samples_n]) of
                            Inl err \<Rightarrow> (Inl err, g2)
                          | Inr S \<Rightarrow>
                              (case kine_vesc_of E policy name kine_samples_n S g2 of
                                 (Inl err, g3) \<Rightarrow> (Inl err, g3)
                               | (Inr kine_vesc, g3) \<Rightarrow>
                                   (case kine_bound_n_of kine_vesc (kine_vgrf S) of
                                      Inl err \<Rightarrow> (Inl err, g3)
                                    | Inr kine_bound_n \<Rightarrow>
                                        (Inr (store_outcomes E e K S kine_vesc
                                           (kine_bound_percentiles (beta_ppf E) kine_samples_n
                                              kine_bound_n)), g3))))))))"

text \<open>
  The state of a run: the entries of the catalogue in the order of their keys, the warnings
  logged, whether \<open>journal_entries\<close> has been called, and the state of the generator.
\<close>

datatype warning =
    vescmethod_not_defined
  | entry_not_found pystr

record 'g run =
  entries :: "(pystr \<times> entry) list"
  log_warnings :: "warning list"
  journaled :: bool
  generator :: 'g

text \<open>\<open>catalog.entries[name] = e\<close> for a name that is a key.\<close>

definition put_entry :: "pystr \<Rightarrow> entry \<Rightarrow> (pystr \<times> entry) list \<Rightarrow> (pystr \<times> entry) list" where
  "put_entry name e es = map (\<lambda>(n, x). if n = name then (n, e) else (n, x)) es"

text \<open>
  The test that skips an entry: no right ascension, no declination, or neither a
  photometric distance nor a parallax.
\<close>

definition lacks_data :: "entry \<Rightarrow> bool" where
  "lacks_data e =
     (RA e = None \<or> DEC e = None \<or> (LUM_DIST e = None \<and> PARALLAX e = None))"

text \<open>
  The loop over the keys. The result is the exception that ended the run, if any, and the
  state reached.
\<close>

fun star_loop ::
  "'g env \<Rightarrow> vesc_policy \<Rightarrow> pystr list \<Rightarrow> 'g run \<Rightarrow> error option \<times> 'g run" where
  "star_loop E policy [] w = (None, w)"
| "star_loop E policy (oname # keys) w =
     (case add_entry E (entries w) oname of
        Inl err \<Rightarrow>
          star_loop E policy keys (w\<lparr>log_warnings := log_warnings w @ [entry_not_found oname]\<rparr>)
      | Inr name \<Rightarrow>
          (case map_of (entries w) name of
             None \<Rightarrow> (Some KeyError, w)
           | Some e \<Rightarrow>
               (if lacks_data e then star_loop E policy keys w
                else (case process_star E policy name e (generator w) of
                        (Inl err, g) \<Rightarrow> (Some err, w\<lparr>generator := g\<rparr>)
                      | (Inr e1, g) \<Rightarrow>
                          star_loop E policy keys
                            (w\<lparr>entries := put_entry name e1 (entries w), generator := g\<rparr>)))))"

text \<open>
  The test of \<open>vescmethod\<close> before the loop: the policy and the warnings logged. \<open>table\<close>
  is the table of numbers in the chain file, row by row.
\<close>

definition resolve_vescmethod ::
  "string \<Rightarrow> real list list \<Rightarrow> error + (vesc_policy \<times> warning list)" where
  "resolve_vescmethod vescmethod table =
     (if vescmethod = ''galpy'' then Inr (Galpy, [])
      else if vescmethod = ''williams2017''
      then (case np_genfromtxt table of
              Inl err \<Rightarrow> Inl err
            | Inr chain \<Rightarrow>
                (case column 5 chain of
                   Inl err \<Rightarrow> Inl err
                 | Inr VESCSOLAR \<Rightarrow>
                     (case column 6 chain of
                        Inl err \<Rightarrow> Inl err
                      | Inr ALPHA \<Rightarrow> Inr (Williams2017 VESCSOLAR ALPHA, []))))
      else Inr (Unresolved, [vescmethod_not_defined]))"




subsection \<open>Concrete inputs\<close>

text \<open>
  A small generator for the examples: the state is a number, seeding stores the seed, the
  \<open>j\<close>-th draw is the state plus \<open>j\<close> (reduced to the population by \<open>np_random_choice\<close>).
\<close>

definition toy_rng :: "nat np_random" where
  "toy_rng = \<lparr>seeded = (\<lambda>s. nat s), draw = (\<lambda>g n m j. g + j), after_draw = (\<lambda>g n m. g + m)\<rparr>"

text \<open>Two columns of a chain of five rows.\<close>

definition toy_VESCSOLAR :: "real list" where
  "toy_VESCSOLAR = [500, 510, 520, 530, 540]"

definition toy_ALPHA :: "real list" where
  "toy_ALPHA = [0.1, 0.2, 0.3, 0.4, 0.5]"

definition identity3 :: mat3 where
  "identity3 = ((1, 0, 0), (0, 1, 0), (0, 0, 1))"

definition toy_kine_row :: kine_row where
  "toy_kine_row = \<lparr>k0 = 2, k1 = 3, k2 = 4, k3 = 5\<rparr>"

definition toy_solar_row :: solar_row where
  "toy_solar_row = \<lparr>s0 = 8, s1 = 220, s2 = 11, s3 = 12, s4 = 7\<rparr>"

text \<open>An entry with no key, and a star with one photometric distance of 4 kpc, error 2 kpc.\<close>

definition empty_entry :: entry where
  "empty_entry =
     \<lparr>RA = None, DEC = None, PARALLAX = None, PROPER_MOTION_RA = None,
      PROPER_MOTION_DEC = None, VELOCITY = None, LUM_DIST = None,
      DISTANCE_PRIOR_LENGTH_SCALE = None, BOUND_PROBABILITY = None\<rparr>"

definition lumdist_entry :: entry where
  "lumdist_entry = empty_entry\<lparr>LUM_DIST := Some [(measurement 4)\<lparr>e_value := Some 2\<rparr>]\<rparr>"

text \<open>A chain of three rows, and collaborators for the examples.\<close>

definition toy_chain :: "real list list" where
  "toy_chain = [[0, 0, 0, 0, 0, 500, 0.2], [0, 0, 0, 0, 0, 520, 0.3], [0, 0, 0, 0, 0, 540, 0.4]]"

definition toy_env :: "nat env" where
  "toy_env =
     \<lparr>add_entry = (\<lambda>es oname. if oname \<in> set (map fst es) then Inr oname else Inl KeyError),
      SkyCoord = (\<lambda>s. Inr (0, 0, 0, 0)),
      kinematic_sampler = (\<lambda>name values errors corr prior g. ([toy_kine_row], g + 1)),
      solarmotion_sampler = (\<lambda>name n g. (\<lambda>i. toy_solar_row, g + 1)),
      rng = toy_rng,
      np_power = (\<lambda>x y. x powr y),
      galpy_vesc = (\<lambda>r. 2),
      beta_ppf = (\<lambda>q a b. q),
      np_mean = (\<lambda>xs. sum_list xs / real (length xs)),
      np_std = (\<lambda>xs. 0)\<rparr>"



definition run_of :: "(pystr \<times> entry) list \<Rightarrow> nat run" where
  "run_of es = \<lparr>entries = es, log_warnings = [], journaled = False, generator = 7\<rparr>"

section \<open>Properties\<close>

subsection \<open>The selector\<close>

lemma py_eq_DERIVED_True: "py_eq QUANTITY_DERIVED (PyBool True) = False"
  by (simp add: QUANTITY_DERIVED_def)

lemma argmin_less: "xs \<noteq> [] \<Longrightarrow> argmin xs < length xs"
  by (induction xs rule: argmin.induct) (auto simp: Let_def)

lemma argmin_least: "j < length xs \<Longrightarrow> xs ! argmin xs \<le> xs ! j"
proof (induction xs arbitrary: j rule: argmin.induct)
  case 1
  then show ?case by simp
next
  case (2 x)
  then show ?case by simp
next
  case (3 x y ys)
  let ?r = "y # ys"
  show ?case
  proof (cases j)
    case 0
    then show ?thesis by (auto simp: Let_def)
  next
    case (Suc k)
    with 3 have "k < length ?r" by simp
    then have "?r ! argmin ?r \<le> ?r ! k" by (rule "3.IH")
    with Suc show ?thesis by (auto simp: Let_def)
  qed
qed

lemma argmin_first: "j < argmin xs \<Longrightarrow> xs ! argmin xs < xs ! j"
proof (induction xs arbitrary: j rule: argmin.induct)
  case 1
  then show ?case by simp
next
  case (2 x)
  then show ?case by simp
next
  case (3 x y ys)
  let ?r = "y # ys"
  from "3.prems" have gt: "\<not> x \<le> ?r ! argmin ?r"
    by (auto simp: Let_def split: if_splits)
  then have am: "argmin (x # ?r) = Suc (argmin ?r)" by (simp add: Let_def)
  show ?case
  proof (cases j)
    case 0
    with gt am show ?thesis by simp
  next
    case (Suc k)
    with "3.prems" am have "k < argmin ?r" by simp
    then have "?r ! argmin ?r < ?r ! k" by (rule "3.IH")
    with Suc am show ?thesis by simp
  qed
qed

text \<open>
  What the selector returns: the first index at which the error metric is least, and the
  metric there.
\<close>

lemma best_parameter_first_minimum:
  assumes "best_parameter PARAMETER = Inr (i, m)"
  shows "i < length PARAMETER \<and> m = errPARAMETER_at (PARAMETER ! i)
    \<and> (\<forall>j < length PARAMETER. m \<le> errPARAMETER_at (PARAMETER ! j))
    \<and> (\<forall>j < i. m < errPARAMETER_at (PARAMETER ! j))"
proof -
  let ?e = "map errPARAMETER_at PARAMETER"
  from assms have ne: "?e \<noteq> []" and i: "i = argmin ?e" and m: "m = ?e ! argmin ?e"
    by (auto simp: best_parameter_def Let_def split: if_splits)
  from ne have lt: "argmin ?e < length ?e" by (rule argmin_less)
  have least: "\<forall>j < length PARAMETER. ?e ! argmin ?e \<le> ?e ! j"
    using argmin_least [of _ ?e] by simp
  have first: "\<forall>j < argmin ?e. ?e ! argmin ?e < ?e ! j"
    using argmin_first [of _ ?e] by simp
  from lt i m least first show ?thesis by auto
qed

text \<open>
  C1. The selector is meant to pass over entries flagged as derived. It does not: the test
  that should skip them never holds, so a derived entry with the smaller error is returned
  although a primary entry has an error. At the list of a primary entry with symmetric
  error 0.1 and a derived entry with symmetric error 0.01 the selector returns index 1 and the
  metric 0.01. The example of the claim itself (the derived entry has no error) returns
  the primary entry and 0.1, in either order.
\<close>

theorem best_parameter_returns_derived:
  "best_parameter
     [(measurement 300)\<lparr>e_value := Some 0.1\<rparr>,
      (measurement 310)\<lparr>e_value := Some 0.01, derived := True\<rparr>] = Inr (1, 0.01)
   \<and> best_parameter
     [(measurement 300)\<lparr>e_value := Some 0.1\<rparr>, (measurement 310)\<lparr>derived := True\<rparr>]
       = Inr (0, 0.1)
   \<and> best_parameter
     [(measurement 310)\<lparr>derived := True\<rparr>, (measurement 300)\<lparr>e_value := Some 0.1\<rparr>]
       = Inr (1, 0.1)"
  by (simp add: best_parameter_def errPARAMETER_at_def py_eq_DERIVED_True measurement_def)

subsection \<open>The seed and the chain-based sampler\<close>

lemma prod_list_word_of_int:
  "prod_list (map (\<lambda>i. (word_of_int (f i) :: 'a::len word)) xs)
     = word_of_int (prod_list (map f xs))"
  by (induction xs) simp_all

lemma sint_word_of_int_mod:
  "sint (word_of_int x :: 64 word) mod 4294967296 = x mod 4294967296"
proof -
  have "take_bit 32 (signed_take_bit 63 x) = take_bit 32 x"
    by (rule take_bit_signed_take_bit) simp
  then show ?thesis
    by (simp add: sint_sbintrunc' take_bit_eq_mod)
qed

text \<open>The wrap-around of the 64-bit product does not show in the seed.\<close>

lemma craft_seed_product:
  "NAME \<noteq> [] \<Longrightarrow>
   craft_seed NAME =
     Inr ((\<Prod>i\<leftarrow>[0 ..< 2 * (length NAME + 3)]. ord (NAME ! (i mod length NAME))) mod 2 ^ 32)"
  by (simp add: craft_seed_def Let_def prod_list_word_of_int sint_word_of_int_mod)

lemma craft_seed_range: "craft_seed NAME = Inr s \<Longrightarrow> 0 \<le> s \<and> s < 2 ^ 32"
  by (auto simp: craft_seed_def Let_def split: if_splits)

lemma craft_seed_HVS1: "craft_seed (py ''HVS1'') = Inr 1630208000"
  by code_simp

lemma vescsolar_sampler_state_free:
  "fst (vescsolar_sampler R VESCSOLAR ALPHA NAME NSAMP g1)
     = fst (vescsolar_sampler R VESCSOLAR ALPHA NAME NSAMP g2)"
  by (simp add: vescsolar_sampler_def split: sum.splits prod.splits)

lemma take_indices_in_range:
  assumes "n \<le> length xs" "0 < n"
  shows "take_indices xs (map (\<lambda>j. f j mod n) js) = Inr (map (\<lambda>j. xs ! (f j mod n)) js)"
proof -
  have "f j mod n < length xs" for j
    using assms mod_less_divisor [of n "f j"] by linarith
  then show ?thesis by (simp add: take_indices_def list_all_iff o_def)
qed

text \<open>
  What the sampler returns for a non-empty identifier and a non-empty chain: the two
  columns at the indices drawn in the state seeded by \<open>craft_seed\<close>.
\<close>

lemma vescsolar_sampler_returns:
  assumes "craft_seed NAME = Inr s" "VESCSOLAR \<noteq> []" "length ALPHA = length VESCSOLAR"
  shows "fst (vescsolar_sampler R VESCSOLAR ALPHA NAME NSAMP g) =
    Inr (map (\<lambda>j. VESCSOLAR ! (draw R (seeded R s) (length VESCSOLAR) NSAMP j mod length VESCSOLAR))
           [0 ..< NSAMP],
         map (\<lambda>j. ALPHA ! (draw R (seeded R s) (length VESCSOLAR) NSAMP j mod length VESCSOLAR))
           [0 ..< NSAMP])"
proof -
  from assms(1) have r: "0 \<le> s \<and> s < 2 ^ 32" by (rule craft_seed_range)
  from assms(2) have n: "0 < length VESCSOLAR" by simp
  have v: "take_indices VESCSOLAR
      (map (\<lambda>j. draw R (seeded R s) (length VESCSOLAR) NSAMP j mod length VESCSOLAR) [0 ..< NSAMP])
    = Inr (map (\<lambda>j. VESCSOLAR ! (draw R (seeded R s) (length VESCSOLAR) NSAMP j
             mod length VESCSOLAR)) [0 ..< NSAMP])"
    using n by (intro take_indices_in_range) simp_all
  have a: "take_indices ALPHA
      (map (\<lambda>j. draw R (seeded R s) (length VESCSOLAR) NSAMP j mod length VESCSOLAR) [0 ..< NSAMP])
    = Inr (map (\<lambda>j. ALPHA ! (draw R (seeded R s) (length VESCSOLAR) NSAMP j
             mod length VESCSOLAR)) [0 ..< NSAMP])"
    using n assms(3) by (intro take_indices_in_range) simp_all
  show ?thesis
    using r n by (simp add: vescsolar_sampler_def assms(1) np_random_seed_def
        np_random_choice_def v a)
qed

lemma vescsolar_sampler_state:
  assumes "craft_seed NAME = Inr s" "VESCSOLAR \<noteq> []" "length ALPHA = length VESCSOLAR"
  shows "snd (vescsolar_sampler R VESCSOLAR ALPHA NAME NSAMP g)
    = after_draw R (seeded R s) (length VESCSOLAR) NSAMP"
proof -
  from assms(1) have r: "0 \<le> s \<and> s < 2 ^ 32" by (rule craft_seed_range)
  from assms(2) have n: "0 < length VESCSOLAR" by simp
  have v: "take_indices VESCSOLAR
      (map (\<lambda>j. draw R (seeded R s) (length VESCSOLAR) NSAMP j mod length VESCSOLAR) [0 ..< NSAMP])
    = Inr (map (\<lambda>j. VESCSOLAR ! (draw R (seeded R s) (length VESCSOLAR) NSAMP j
             mod length VESCSOLAR)) [0 ..< NSAMP])"
    using n by (intro take_indices_in_range) simp_all
  have a: "take_indices ALPHA
      (map (\<lambda>j. draw R (seeded R s) (length VESCSOLAR) NSAMP j mod length VESCSOLAR) [0 ..< NSAMP])
    = Inr (map (\<lambda>j. ALPHA ! (draw R (seeded R s) (length VESCSOLAR) NSAMP j
             mod length VESCSOLAR)) [0 ..< NSAMP])"
    using n assms(3) by (intro take_indices_in_range) simp_all
  show ?thesis
    using r n by (simp add: vescsolar_sampler_def assms(1) np_random_seed_def
        np_random_choice_def v a)
qed

text \<open>
  C6. Two calls of \<open>vescsolar_sampler\<close> with the same identifier and sample count return
  the same, whatever the state of the generator at each call, because the sampler first
  seeds the generator with \<open>craft_seed NAME\<close>. For a non-empty identifier that seed is
  \<open>seed_product NAME\<close>, the product of the character codes over the \<open>2*(len(NAME)+3)\<close>
  cyclic indices modulo \<open>2^32\<close>; and with a non-empty chain the sampler returns the two
  columns at the \<open>NSAMP\<close> indices drawn in the generator seeded with that product, and
  leaves the generator in the state after that draw.
\<close>

theorem vescsolar_sampler_deterministic:
  "fst (vescsolar_sampler R VESCSOLAR ALPHA NAME NSAMP g1)
     = fst (vescsolar_sampler R VESCSOLAR ALPHA NAME NSAMP g2)
   \<and> (NAME \<noteq> [] \<longrightarrow> craft_seed NAME = Inr (seed_product NAME))
   \<and> (NAME \<noteq> [] \<longrightarrow> VESCSOLAR \<noteq> [] \<longrightarrow> length ALPHA = length VESCSOLAR \<longrightarrow>
        vescsolar_sampler R VESCSOLAR ALPHA NAME NSAMP g1 =
          (Inr (map (\<lambda>j. VESCSOLAR ! (draw R (seeded R (seed_product NAME)) (length VESCSOLAR)
                                      NSAMP j mod length VESCSOLAR)) [0 ..< NSAMP],
                map (\<lambda>j. ALPHA ! (draw R (seeded R (seed_product NAME)) (length VESCSOLAR)
                                  NSAMP j mod length VESCSOLAR)) [0 ..< NSAMP]),
           after_draw R (seeded R (seed_product NAME)) (length VESCSOLAR) NSAMP))"
proof (intro conjI impI)
  show "fst (vescsolar_sampler R VESCSOLAR ALPHA NAME NSAMP g1)
     = fst (vescsolar_sampler R VESCSOLAR ALPHA NAME NSAMP g2)"
    by (rule vescsolar_sampler_state_free)
next
  assume "NAME \<noteq> []"
  then show "craft_seed NAME = Inr (seed_product NAME)"
    unfolding seed_product_def by (rule craft_seed_product)
next
  assume ne: "NAME \<noteq> []" and ch: "VESCSOLAR \<noteq> []" "length ALPHA = length VESCSOLAR"
  from ne have s: "craft_seed NAME = Inr (seed_product NAME)"
    unfolding seed_product_def by (rule craft_seed_product)
  have f: "fst (vescsolar_sampler R VESCSOLAR ALPHA NAME NSAMP g1) =
          Inr (map (\<lambda>j. VESCSOLAR ! (draw R (seeded R (seed_product NAME)) (length VESCSOLAR)
                                      NSAMP j mod length VESCSOLAR)) [0 ..< NSAMP],
                map (\<lambda>j. ALPHA ! (draw R (seeded R (seed_product NAME)) (length VESCSOLAR)
                                  NSAMP j mod length VESCSOLAR)) [0 ..< NSAMP])"
    using s ch by (rule vescsolar_sampler_returns)
  have g: "snd (vescsolar_sampler R VESCSOLAR ALPHA NAME NSAMP g1)
    = after_draw R (seeded R (seed_product NAME)) (length VESCSOLAR) NSAMP"
    using s ch by (rule vescsolar_sampler_state)
  from f g show "vescsolar_sampler R VESCSOLAR ALPHA NAME NSAMP g1 =
          (Inr (map (\<lambda>j. VESCSOLAR ! (draw R (seeded R (seed_product NAME)) (length VESCSOLAR)
                                      NSAMP j mod length VESCSOLAR)) [0 ..< NSAMP],
                map (\<lambda>j. ALPHA ! (draw R (seeded R (seed_product NAME)) (length VESCSOLAR)
                                  NSAMP j mod length VESCSOLAR)) [0 ..< NSAMP]),
           after_draw R (seeded R (seed_product NAME)) (length VESCSOLAR) NSAMP)"
    by (simp add: prod_eq_iff)
qed

lemma seed_product_HVS1: "seed_product (py ''HVS1'') = 1630208000"
  by code_simp

theorem vescsolar_sampler_deterministic_witness:
  "py ''HVS1'' \<noteq> [] \<and> toy_VESCSOLAR \<noteq> [] \<and> length toy_ALPHA = length toy_VESCSOLAR
   \<and> fst (vescsolar_sampler toy_rng toy_VESCSOLAR toy_ALPHA (py ''HVS1'') 2 7)
       = fst (vescsolar_sampler toy_rng toy_VESCSOLAR toy_ALPHA (py ''HVS1'') 2 99)
   \<and> craft_seed (py ''HVS1'') = Inr 1630208000
   \<and> seed_product (py ''HVS1'') = 1630208000
   \<and> vescsolar_sampler toy_rng toy_VESCSOLAR toy_ALPHA (py ''HVS1'') 2 7
       = (Inr ([500, 510], [0.1, 0.2]), 1630208002)"
proof -
  have ne: "py ''HVS1'' \<noteq> []" by (simp add: py_def)
  have ch: "toy_VESCSOLAR \<noteq> []" "length toy_ALPHA = length toy_VESCSOLAR"
    by (simp_all add: toy_VESCSOLAR_def toy_ALPHA_def)
  note t = vescsolar_sampler_deterministic
      [of toy_rng toy_VESCSOLAR toy_ALPHA "py ''HVS1''" 2 7 99]
  from t have same: "fst (vescsolar_sampler toy_rng toy_VESCSOLAR toy_ALPHA (py ''HVS1'') 2 7)
       = fst (vescsolar_sampler toy_rng toy_VESCSOLAR toy_ALPHA (py ''HVS1'') 2 99)"
    by blast
  from t ne have seed: "craft_seed (py ''HVS1'') = Inr (seed_product (py ''HVS1''))"
    by blast
  from t ne ch have val: "vescsolar_sampler toy_rng toy_VESCSOLAR toy_ALPHA (py ''HVS1'') 2 7 =
          (Inr (map (\<lambda>j. toy_VESCSOLAR ! (draw toy_rng (seeded toy_rng (seed_product (py ''HVS1'')))
                       (length toy_VESCSOLAR) 2 j mod length toy_VESCSOLAR)) [0 ..< 2],
                map (\<lambda>j. toy_ALPHA ! (draw toy_rng (seeded toy_rng (seed_product (py ''HVS1'')))
                       (length toy_VESCSOLAR) 2 j mod length toy_VESCSOLAR)) [0 ..< 2]),
           after_draw toy_rng (seeded toy_rng (seed_product (py ''HVS1''))) (length toy_VESCSOLAR) 2)"
    by blast
  have val': "vescsolar_sampler toy_rng toy_VESCSOLAR toy_ALPHA (py ''HVS1'') 2 7
       = (Inr ([500, 510], [0.1, 0.2]), 1630208002)"
    unfolding val seed_product_HVS1
    by (simp add: toy_rng_def toy_VESCSOLAR_def toy_ALPHA_def upt_rec)
  from ne ch same seed val' seed_product_HVS1 show ?thesis by simp
qed

text \<open>
  C10. For a non-empty identifier \<open>craft_seed\<close> returns an integer from 0 to \<open>2^32 - 1\<close>,
  which \<open>np.random.seed\<close> accepts; for the empty identifier it raises ZeroDivisionError, and
  so does the sampler.
\<close>

theorem craft_seed_valid_seed:
  "(NAME \<noteq> [] \<longrightarrow>
      (\<exists>s. craft_seed NAME = Inr s \<and> 0 \<le> s \<and> s < 2 ^ 32
         \<and> np_random_seed R s = Inr (seeded R s)))
   \<and> craft_seed [] = Inl ZeroDivisionError
   \<and> fst (vescsolar_sampler R VESCSOLAR ALPHA [] NSAMP g) = Inl ZeroDivisionError"
proof (intro conjI impI)
  assume "NAME \<noteq> []"
  then obtain s where s: "craft_seed NAME = Inr s"
    using craft_seed_product by blast
  then have "0 \<le> s \<and> s < 2 ^ 32" by (rule craft_seed_range)
  with s show "\<exists>s. craft_seed NAME = Inr s \<and> 0 \<le> s \<and> s < 2 ^ 32
      \<and> np_random_seed R s = Inr (seeded R s)"
    by (simp add: np_random_seed_def)
next
  show e: "craft_seed [] = Inl ZeroDivisionError"
    by (simp add: craft_seed_def)
  show "fst (vescsolar_sampler R VESCSOLAR ALPHA [] NSAMP g) = Inl ZeroDivisionError"
    by (simp add: vescsolar_sampler_def e)
qed

theorem craft_seed_valid_seed_witness:
  "py ''HVS1'' \<noteq> []
   \<and> (\<exists>s. craft_seed (py ''HVS1'') = Inr s \<and> 0 \<le> s \<and> s < 2 ^ 32
        \<and> np_random_seed toy_rng s = Inr (seeded toy_rng s))
   \<and> craft_seed [] = Inl ZeroDivisionError
   \<and> fst (vescsolar_sampler toy_rng [500, 520, 540] [0.2, 0.3, 0.4] [] 2 7)
       = Inl ZeroDivisionError"
proof -
  have ne: "py ''HVS1'' \<noteq> []" by (simp add: py_def)
  with craft_seed_valid_seed [of "py ''HVS1''" toy_rng "[500, 520, 540]" "[0.2, 0.3, 0.4]" 2 7]
  show ?thesis by blast
qed

subsection \<open>The solar reflex\<close>

lemma zip_with_same_length:
  "length xs = length ys \<Longrightarrow> zip_with f xs ys = Inr (map2 f xs ys)"
  by (simp add: zip_with_def)

lemma assign_column_same_length:
  "length vals = length M \<Longrightarrow> assign_column upd vals M = Inr (map2 upd M vals)"
  by (simp add: assign_column_def)

lemma reflex_substitution_same_length:
  assumes "length D = length M"
  shows "reflex_substitution havepm havevel D M = Inr (map2 (substituted havepm havevel) M D)"
  using assms
  by (auto simp: reflex_substitution_def assign_column_same_length substituted_def
       intro!: nth_equalityI)

lemma substituted_columns:
  "k1 (substituted False hv r d) = - 1 * fst (snd d)"
  "k2 (substituted False hv r d) = - 1 * snd (snd d)"
  "k3 (substituted hp False r d) = - 1 * fst d"
  "k0 (substituted hp hv r d) = k0 r"
  by (simp_all add: substituted_def Let_def)

text \<open>
  The arrays of a star whose solar motion samples are as many as its kinematic samples: no
  step raises.
\<close>

lemma star_arrays_of_same_length:
  assumes "length solar_drawn = length kine_samples"
  shows "star_arrays_of B cosb cosl havepm havevel kine_samples solar_drawn =
    Inr \<lparr>kine_samples_corrected =
           map2 (substituted havepm havevel) (proper_motion_to_velocity kine_samples)
             (kine_D_of B (kine_vhel_view (add_vdisk solar_drawn))),
         kine_samples_solar = add_vdisk solar_drawn,
         kine_D = kine_D_of B (kine_vhel_view (add_vdisk solar_drawn)),
         kine_vgrf = kine_vgrf_of
           (map2 (\<lambda>v r. vec_add v (mat_vec B (k3 r, k1 r, k2 r)))
              (kine_vhel_view (add_vdisk solar_drawn))
              (map2 (substituted havepm havevel) (proper_motion_to_velocity kine_samples)
                 (kine_D_of B (kine_vhel_view (add_vdisk solar_drawn))))),
         kine_galrad =
           map2 (\<lambda>s r. sqrt ((s0 s)\<^sup>2 + (k0 r)\<^sup>2 - 2 * s0 s * k0 r * cosb * cosl))
             (add_vdisk solar_drawn)
             (map2 (substituted havepm havevel) (proper_motion_to_velocity kine_samples)
                 (kine_D_of B (kine_vhel_view (add_vdisk solar_drawn))))\<rparr>"
proof -
  have len: "length (kine_D_of B (kine_vhel_view (add_vdisk solar_drawn)))
      = length (proper_motion_to_velocity kine_samples)"
    using assms
    by (simp add: kine_D_of_def kine_vhel_view_def add_vdisk_def proper_motion_to_velocity_def)
  have l2: "length (kine_vhel_view (add_vdisk solar_drawn))
      = length (map2 (substituted havepm havevel) (proper_motion_to_velocity kine_samples)
                 (kine_D_of B (kine_vhel_view (add_vdisk solar_drawn))))"
    using assms
    by (simp add: kine_D_of_def kine_vhel_view_def add_vdisk_def proper_motion_to_velocity_def)
  have l3: "length (add_vdisk solar_drawn)
      = length (map2 (substituted havepm havevel) (proper_motion_to_velocity kine_samples)
                 (kine_D_of B (kine_vhel_view (add_vdisk solar_drawn))))"
    using assms
    by (simp add: kine_D_of_def kine_vhel_view_def add_vdisk_def proper_motion_to_velocity_def)
  show ?thesis
    unfolding star_arrays_of_def Let_def
    by (simp only: reflex_substitution_same_length [OF len] kine_samples_vhel_of_def
        kine_galrad_of_def zip_with_same_length [OF l2] zip_with_same_length [OF l3] sum.case)
qed

lemma substituted_kept:
  "k1 (substituted True hv r d) = k1 r"
  "k2 (substituted True hv r d) = k2 r"
  "k3 (substituted hp True r d) = k3 r"
  by (simp_all add: substituted_def Let_def)

text \<open>
  C4. The arrays of a star are computed (no shape error), and for every sample: without
  proper motions, the corrected tangential velocities (columns 1 and 2) are \<open>-1\<close> times the
  components 1 and 2 of the solar reflex \<open>kine_D\<close> of the same sample, so that each sum is
  zero; without a radial velocity, whether or not there are proper motions, column 3 is
  \<open>-1\<close> times component 0 of the reflex. A column whose measurement exists is not
  substituted: it keeps the sampled velocity, and column 0 is the sampled distance.
\<close>

theorem solar_reflex_substitution_exact:
  "\<exists>S. star_arrays_of B cosb cosl (havepropermotions K) (havevelocities K) kine_samples
               (map solar_at [0 ..< length kine_samples]) = Inr S
     \<and> length (kine_samples_corrected S) = length kine_samples
     \<and> length (kine_D S) = length kine_samples
     \<and> kine_D S
         = kine_D_of B (kine_vhel_view (add_vdisk (map solar_at [0 ..< length kine_samples])))
     \<and> (\<forall>i < length kine_samples.
           (havepropermotions K = False \<longrightarrow>
               k1 (kine_samples_corrected S ! i) = - 1 * fst (snd (kine_D S ! i))
             \<and> k2 (kine_samples_corrected S ! i) = - 1 * snd (snd (kine_D S ! i))
             \<and> k1 (kine_samples_corrected S ! i) + fst (snd (kine_D S ! i)) = 0
             \<and> k2 (kine_samples_corrected S ! i) + snd (snd (kine_D S ! i)) = 0)
         \<and> (havevelocities K = False \<longrightarrow>
               k3 (kine_samples_corrected S ! i) = - 1 * fst (kine_D S ! i)
             \<and> k3 (kine_samples_corrected S ! i) + fst (kine_D S ! i) = 0)
         \<and> (havepropermotions K = True \<longrightarrow>
               k1 (kine_samples_corrected S ! i)
                 = k1 (kine_samples ! i) * (k_factor * k0 (kine_samples ! i))
             \<and> k2 (kine_samples_corrected S ! i)
                 = k2 (kine_samples ! i) * (k_factor * k0 (kine_samples ! i)))
         \<and> (havevelocities K = True \<longrightarrow>
               k3 (kine_samples_corrected S ! i) = k3 (kine_samples ! i))
         \<and> k0 (kine_samples_corrected S ! i) = k0 (kine_samples ! i))"
proof -
  let ?solar = "map solar_at [0 ..< length kine_samples]"
  have len: "length ?solar = length kine_samples" by simp
  have lD: "length (kine_D_of B (kine_vhel_view (add_vdisk ?solar))) = length kine_samples"
    by (simp add: kine_D_of_def kine_vhel_view_def add_vdisk_def)
  have lP: "length (proper_motion_to_velocity kine_samples) = length kine_samples"
    by (simp add: proper_motion_to_velocity_def)
  have P: "proper_motion_to_velocity kine_samples ! i
      = (kine_samples ! i)\<lparr>k1 := k1 (kine_samples ! i) * (k_factor * k0 (kine_samples ! i)),
           k2 := k2 (kine_samples ! i) * (k_factor * k0 (kine_samples ! i))\<rparr>"
    if "i < length kine_samples" for i
    using that by (simp add: proper_motion_to_velocity_def)
  show ?thesis
    unfolding star_arrays_of_same_length [OF len]
    using lD lP
    by (cases "havepropermotions K"; cases "havevelocities K")
       (auto simp: substituted_columns substituted_kept P)
qed


theorem solar_reflex_substitution_exact_witness:
  "havepropermotions initial_inputs = False \<and> havevelocities initial_inputs = False
   \<and> (\<exists>S. star_arrays_of identity3 1 1 False False [toy_kine_row]
              (map (\<lambda>i. toy_solar_row) [0 ..< 1]) = Inr S
         \<and> kine_D S ! 0 = (11, 232, 7)
         \<and> k1 (kine_samples_corrected S ! 0) = - 232
         \<and> k2 (kine_samples_corrected S ! 0) = - 7
         \<and> k3 (kine_samples_corrected S ! 0) = - 11
         \<and> k1 (kine_samples_corrected S ! 0) + fst (snd (kine_D S ! 0)) = 0
         \<and> k2 (kine_samples_corrected S ! 0) + snd (snd (kine_D S ! 0)) = 0)
   \<and> havepropermotions (initial_inputs\<lparr>havepropermotions := True\<rparr>) = True
   \<and> havevelocities (initial_inputs\<lparr>havepropermotions := True\<rparr>) = False
   \<and> (\<exists>S. star_arrays_of identity3 1 1 True False [toy_kine_row]
              (map (\<lambda>i. toy_solar_row) [0 ..< 1]) = Inr S
         \<and> kine_D S ! 0 = (11, 232, 7)
         \<and> k1 (kine_samples_corrected S ! 0) = 3 * (k_factor * 2)
         \<and> k2 (kine_samples_corrected S ! 0) = 4 * (k_factor * 2)
         \<and> k3 (kine_samples_corrected S ! 0) = - 11)"
proof -
  let ?K = "initial_inputs\<lparr>havepropermotions := True\<rparr>"
  have h: "havepropermotions initial_inputs = False" "havevelocities initial_inputs = False"
    "havepropermotions ?K = True" "havevelocities ?K = False"
    by (simp_all add: initial_inputs_def)
  have D0: "kine_D_of identity3
              (kine_vhel_view (add_vdisk (map (\<lambda>i. toy_solar_row) [0 ..< 1]))) ! 0 = (11, 232, 7)"
    by (simp add: kine_D_of_def kine_vhel_view_def add_vdisk_def toy_solar_row_def
        identity3_def)
  from solar_reflex_substitution_exact
    [of identity3 1 1 initial_inputs "[toy_kine_row]" "\<lambda>i. toy_solar_row"]
  have a: "\<exists>S. star_arrays_of identity3 1 1 False False [toy_kine_row]
              (map (\<lambda>i. toy_solar_row) [0 ..< 1]) = Inr S
         \<and> kine_D S ! 0 = (11, 232, 7)
         \<and> k1 (kine_samples_corrected S ! 0) = - 232
         \<and> k2 (kine_samples_corrected S ! 0) = - 7
         \<and> k3 (kine_samples_corrected S ! 0) = - 11
         \<and> k1 (kine_samples_corrected S ! 0) + fst (snd (kine_D S ! 0)) = 0
         \<and> k2 (kine_samples_corrected S ! 0) + snd (snd (kine_D S ! 0)) = 0"
    using h(1,2) D0 by auto
  from solar_reflex_substitution_exact
    [of identity3 1 1 ?K "[toy_kine_row]" "\<lambda>i. toy_solar_row"]
  have b: "\<exists>S. star_arrays_of identity3 1 1 True False [toy_kine_row]
              (map (\<lambda>i. toy_solar_row) [0 ..< 1]) = Inr S
         \<and> kine_D S ! 0 = (11, 232, 7)
         \<and> k1 (kine_samples_corrected S ! 0) = 3 * (k_factor * 2)
         \<and> k2 (kine_samples_corrected S ! 0) = 4 * (k_factor * 2)
         \<and> k3 (kine_samples_corrected S ! 0) = - 11"
    using h(3,4) D0 by (auto simp: toy_kine_row_def)
  from a b h show ?thesis by blast
qed

subsection \<open>The distance prior from a photometric distance\<close>

lemma best_parameter_index:
  "best_parameter PARAMETER = Inr (i, m) \<Longrightarrow> i < length PARAMETER"
  using best_parameter_first_minimum by blast

lemma prior_moments:
  fixes mu sigma :: real
  assumes "mu \<noteq> 0" "sigma \<noteq> 0"
  shows "sigma\<^sup>2 / mu \<noteq> 0"
    and "mu / (sigma\<^sup>2 / mu) * (sigma\<^sup>2 / mu) = mu"
    and "mu / (sigma\<^sup>2 / mu) * (sigma\<^sup>2 / mu)\<^sup>2 = sigma\<^sup>2"
  using assms by (simp_all add: power2_eq_square)

text \<open>
  C5, as the code has it. When a photometric distance exists whose best value is not zero
  and whose selector metric is not zero, the engine sets \<open>(kine_L, kine_k)\<close> so that
  \<open>kine_k * kine_L\<close> is the value and \<open>kine_k * kine_L\<^sup>2\<close> the square of the error, the
  error being the selector's metric when it is below 9999.0 and \<open>errorifmissing\<close> times
  the value otherwise.
\<close>

theorem lumdist_prior_matches_moments:
  assumes "LUM_DIST e = Some lumdist"
    and "best_parameter lumdist = Inr (i, m)"
    and "q_value (lumdist ! i) \<noteq> 0" and "m \<noteq> 0"
  shows "\<exists>L k. lumdist_inputs e K = Inr (K\<lparr>kine_prior := Some (L, k)\<rparr>)
     \<and> k * L = q_value (lumdist ! i)
     \<and> k * L\<^sup>2 = (if m < 9999.0 then m else errorifmissing * q_value (lumdist ! i))\<^sup>2"
proof -
  let ?mu = "q_value (lumdist ! i)"
  let ?sigma = "if m < 9999.0 then m else errorifmissing * ?mu"
  have i: "i < length lumdist" using assms(2) by (rule best_parameter_index)
  have s: "?sigma \<noteq> 0" using assms(3,4) by (simp add: errorifmissing_def)
  note m = prior_moments [OF assms(3) s]
  have "lumdist_prior lumdist = Inr (Some (?sigma\<^sup>2 / ?mu, ?mu / (?sigma\<^sup>2 / ?mu)))"
  proof (cases "m < 9999.0")
    case True
    with i assms(3) m(1) show ?thesis
      by (simp add: lumdist_prior_def assms(2) item_def Let_def)
  next
    case False
    with i assms(3) m(1) show ?thesis
      by (simp add: lumdist_prior_def assms(2) item_def Let_def)
  qed
  then have "lumdist_inputs e K
      = Inr (K\<lparr>kine_prior := Some (?sigma\<^sup>2 / ?mu, ?mu / (?sigma\<^sup>2 / ?mu))\<rparr>)"
    by (simp add: lumdist_inputs_def assms(1))
  with m(2,3) show ?thesis by blast
qed

theorem lumdist_prior_matches_moments_witness:
  "LUM_DIST lumdist_entry = Some [(measurement 4)\<lparr>e_value := Some 2\<rparr>]
   \<and> best_parameter [(measurement 4)\<lparr>e_value := Some 2\<rparr>] = Inr (0, 2)
   \<and> q_value ([(measurement 4)\<lparr>e_value := Some 2\<rparr>] ! 0) \<noteq> 0 \<and> (2 :: real) \<noteq> 0
   \<and> (\<exists>L k. lumdist_inputs lumdist_entry initial_inputs
                = Inr (initial_inputs\<lparr>kine_prior := Some (L, k)\<rparr>)
          \<and> k * L = 4 \<and> k * L\<^sup>2 = 2\<^sup>2)"
proof -
  have a: "LUM_DIST lumdist_entry = Some [(measurement 4)\<lparr>e_value := Some 2\<rparr>]"
    by (simp add: lumdist_entry_def empty_entry_def)
  have b: "best_parameter [(measurement 4)\<lparr>e_value := Some 2\<rparr>] = Inr (0, 2)"
    by (simp add: best_parameter_def errPARAMETER_at_def py_eq_DERIVED_True measurement_def)
  have c: "q_value ([(measurement 4)\<lparr>e_value := Some 2\<rparr>] ! 0) \<noteq> 0"
    by (simp add: measurement_def)
  have d: "(2 :: real) \<noteq> 0" by simp
  from lumdist_prior_matches_moments [OF a b c d, of initial_inputs]
  have "\<exists>L k. lumdist_inputs lumdist_entry initial_inputs
                = Inr (initial_inputs\<lparr>kine_prior := Some (L, k)\<rparr>)
          \<and> k * L = 4 \<and> k * L\<^sup>2 = 2\<^sup>2"
    by (simp add: measurement_def)
  with a b c d show ?thesis by blast
qed

text \<open>
  The claim as written fails at two inputs. A metric of 9999.5 is below the sentinel
  9999.9, yet the code replaces it by half the value: for a distance of 1 it sets
  \<open>(kine_L, kine_k) = (0.25, 4)\<close>, whose \<open>kine_k * kine_L\<^sup>2\<close> is not the square of 9999.5.
  And for a distance of 2 with an error of 0 no pair of finite shape parameters results.
\<close>

theorem lumdist_prior_counterexample:
  "best_parameter [(measurement 1)\<lparr>e_value := Some 9999.5\<rparr>] = Inr (0, 9999.5)
   \<and> (9999.5 :: real) < 9999.9
   \<and> lumdist_prior [(measurement 1)\<lparr>e_value := Some 9999.5\<rparr>] = Inr (Some (0.25, 4))
   \<and> (4 :: real) * 0.25\<^sup>2 \<noteq> 9999.5\<^sup>2
   \<and> best_parameter [(measurement 2)\<lparr>e_value := Some 0\<rparr>] = Inr (0, 0)
   \<and> lumdist_prior [(measurement 2)\<lparr>e_value := Some 0\<rparr>] = Inr None"
proof -
  have a: "best_parameter [(measurement 1)\<lparr>e_value := Some 9999.5\<rparr>] = Inr (0, 9999.5)"
    by (simp add: best_parameter_def errPARAMETER_at_def py_eq_DERIVED_True measurement_def)
  have b: "best_parameter [(measurement 2)\<lparr>e_value := Some 0\<rparr>] = Inr (0, 0)"
    by (simp add: best_parameter_def errPARAMETER_at_def py_eq_DERIVED_True measurement_def)
  have c: "lumdist_prior [(measurement 1)\<lparr>e_value := Some 9999.5\<rparr>] = Inr (Some (0.25, 4))"
    unfolding lumdist_prior_def a
    by (simp add: item_def measurement_def errorifmissing_def power2_eq_square)
  have d: "lumdist_prior [(measurement 2)\<lparr>e_value := Some 0\<rparr>] = Inr None"
    unfolding lumdist_prior_def b
    by (simp add: item_def measurement_def)
  have e: "(4 :: real) * 0.25\<^sup>2 \<noteq> 9999.5\<^sup>2" by (simp add: power2_eq_square)
  from a b c d e show ?thesis by simp
qed

subsection \<open>The chain-based escape velocity\<close>

lemma column_Inr:
  "column j chain = Inr xs \<Longrightarrow> xs = map (\<lambda>row. row ! j) chain \<and> chain \<noteq> []"
  by (auto simp: column_def split: if_splits)

lemma resolve_williams2017:
  assumes "resolve_vescmethod ''williams2017'' chain = Inr (policy, ws)"
  shows "policy = Williams2017 (map (\<lambda>row. row ! 5) chain) (map (\<lambda>row. row ! 6) chain)
    \<and> ws = [] \<and> chain \<noteq> [] \<and> np_genfromtxt chain = Inr chain"
  using assms
  by (auto simp: resolve_vescmethod_def np_genfromtxt_def dest!: column_Inr
      split: sum.splits if_splits)

lemma williams_vesc_same_length:
  assumes "length vs = n" "length as = n" "length galrad = n" "length solar = n"
  shows "williams_vesc pw vs as galrad solar =
    Inr (map (\<lambda>i. vs ! i * pw (galrad ! i / s0 (solar ! i)) (- (as ! i) / 2)) [0 ..< n])"
proof -
  have 1: "zip_with (\<lambda>r s. r / s0 s) galrad solar = Inr (map2 (\<lambda>r s. r / s0 s) galrad solar)"
    using assms by (simp add: zip_with_same_length)
  have 2: "zip_with pw (map2 (\<lambda>r s. r / s0 s) galrad solar) (map (\<lambda>a. - a / 2) as)
     = Inr (map2 pw (map2 (\<lambda>r s. r / s0 s) galrad solar) (map (\<lambda>a. - a / 2) as))"
    using assms by (simp add: zip_with_same_length)
  have 3: "zip_with (\<lambda>v x. v * x) vs (map2 pw (map2 (\<lambda>r s. r / s0 s) galrad solar) (map (\<lambda>a. - a / 2) as))
     = Inr (map2 (\<lambda>v x. v * x) vs (map2 pw (map2 (\<lambda>r s. r / s0 s) galrad solar) (map (\<lambda>a. - a / 2) as)))"
    using assms by (simp add: zip_with_same_length)
  have "map2 (\<lambda>v x. v * x) vs (map2 pw (map2 (\<lambda>r s. r / s0 s) galrad solar) (map (\<lambda>a. - a / 2) as))
     = map (\<lambda>i. vs ! i * pw (galrad ! i / s0 (solar ! i)) (- (as ! i) / 2)) [0 ..< n]"
    using assms by (auto intro!: nth_equalityI)
  then show ?thesis
    unfolding williams_vesc_def 1 2 3 sum.case by (simp only:)
qed

lemma kine_galrad_nth:
  assumes "star_arrays_of B cosb cosl hp hv kine_samples
           (map solar_at [0 ..< length kine_samples]) = Inr S"
    and "i < length kine_samples"
  shows "kine_galrad S ! i =
    sqrt ((s0 (solar_at i))\<^sup>2 + (k0 (kine_samples ! i))\<^sup>2
            - 2 * s0 (solar_at i) * k0 (kine_samples ! i) * cosb * cosl)"
proof -
  have len: "length (map solar_at [0 ..< length kine_samples]) = length kine_samples" by simp
  show ?thesis
    using assms unfolding star_arrays_of_same_length [OF len]
    by (auto simp: add_vdisk_def kine_D_of_def kine_vhel_view_def proper_motion_to_velocity_def
        substituted_columns)
qed

text \<open>
  C9. Under the chain-based policy, once the two columns of the chain are read, and for a
  non-empty identifier, the escape velocities of a star are computed, one for each sample.
  With \<open>rows\<close> the indices drawn in the generator seeded from the identifier, the escape
  velocity of sample \<open>i\<close> is column 5 of the chain at row \<open>rows ! i\<close>, times \<open>np.power\<close> of
  the ratio of the sample's galactocentric radius to the sample's solar radius, to minus half
  of column 6 at the same row. The galactocentric radius is the one of the law of cosines
  for the same index.
\<close>

theorem chain_escape_velocity:
  assumes "resolve_vescmethod ''williams2017'' chain = Inr (policy, ws)"
    and "name \<noteq> []"
    and "star_arrays_of B cosb cosl hp hv kine_samples
           (map solar_at [0 ..< length kine_samples]) = Inr S"
  shows "\<exists>kine_vesc rows s.
       fst (kine_vesc_of E policy name (length kine_samples) S g) = Inr kine_vesc
     \<and> craft_seed name = Inr s
     \<and> rows = map (\<lambda>j. draw (rng E) (seeded (rng E) s) (length chain) (length kine_samples) j
                       mod length chain) [0 ..< length kine_samples]
     \<and> length kine_vesc = length kine_samples
     \<and> (\<forall>i < length kine_samples.
           rows ! i < length chain
         \<and> kine_vesc ! i =
             chain ! (rows ! i) ! 5
               * np_power E (kine_galrad S ! i / s0 (solar_at i)) (- (chain ! (rows ! i) ! 6) / 2)
         \<and> kine_galrad S ! i =
             sqrt ((s0 (solar_at i))\<^sup>2 + (k0 (kine_samples ! i))\<^sup>2
                     - 2 * s0 (solar_at i) * k0 (kine_samples ! i) * cosb * cosl))"
proof -
  let ?n = "length kine_samples"
  let ?V = "map (\<lambda>row. row ! 5) chain"
  let ?A = "map (\<lambda>row. row ! 6) chain"
  from assms(1) have pol: "policy = Williams2017 ?V ?A" and ne: "chain \<noteq> []"
    using resolve_williams2017 by blast+
  from assms(2) obtain s where s: "craft_seed name = Inr s"
    using craft_seed_product by blast
  let ?c = "\<lambda>j. draw (rng E) (seeded (rng E) s) (length chain) ?n j mod length chain"
  let ?rows = "map ?c [0 ..< ?n]"
  have c_lt: "?c j < length chain" for j
    using ne by simp
  have ret: "fst (vescsolar_sampler (rng E) ?V ?A name ?n g)
      = Inr (map (\<lambda>j. ?V ! ?c j) [0 ..< ?n], map (\<lambda>j. ?A ! ?c j) [0 ..< ?n])"
    using vescsolar_sampler_returns [OF s, of ?V ?A "rng E" ?n g] ne by simp
  have len: "length (map solar_at [0 ..< ?n]) = ?n" by simp
  from assms(3) have S: "length (kine_galrad S) = ?n" "length (kine_samples_solar S) = ?n"
    "kine_samples_solar S = add_vdisk (map solar_at [0 ..< ?n])"
    unfolding star_arrays_of_same_length [OF len]
    by (auto simp: add_vdisk_def kine_D_of_def kine_vhel_view_def proper_motion_to_velocity_def)
  have s0: "s0 (kine_samples_solar S ! i) = s0 (solar_at i)" if "i < ?n" for i
    using that by (simp add: S(3) add_vdisk_def)
  obtain g1 where sam: "vescsolar_sampler (rng E) ?V ?A name ?n g
      = (Inr (map (\<lambda>j. ?V ! ?c j) [0 ..< ?n], map (\<lambda>j. ?A ! ?c j) [0 ..< ?n]), g1)"
    using ret by (cases "vescsolar_sampler (rng E) ?V ?A name ?n g") simp
  have w: "williams_vesc (np_power E) (map (\<lambda>j. ?V ! ?c j) [0 ..< ?n])
        (map (\<lambda>j. ?A ! ?c j) [0 ..< ?n]) (kine_galrad S) (kine_samples_solar S)
     = Inr (map (\<lambda>i. map (\<lambda>j. ?V ! ?c j) [0 ..< ?n] ! i
              * np_power E (kine_galrad S ! i / s0 (kine_samples_solar S ! i))
                  (- (map (\<lambda>j. ?A ! ?c j) [0 ..< ?n] ! i) / 2)) [0 ..< ?n])"
    by (rule williams_vesc_same_length) (simp_all add: S(1,2))
  have res: "fst (kine_vesc_of E policy name ?n S g)
     = Inr (map (\<lambda>i. map (\<lambda>j. ?V ! ?c j) [0 ..< ?n] ! i
              * np_power E (kine_galrad S ! i / s0 (kine_samples_solar S ! i))
                  (- (map (\<lambda>j. ?A ! ?c j) [0 ..< ?n] ! i) / 2)) [0 ..< ?n])"
    by (simp add: kine_vesc_of_def pol sam w)
  show ?thesis
    apply (rule exI [of _ "map (\<lambda>i. map (\<lambda>j. ?V ! ?c j) [0 ..< ?n] ! i
              * np_power E (kine_galrad S ! i / s0 (kine_samples_solar S ! i))
                  (- (map (\<lambda>j. ?A ! ?c j) [0 ..< ?n] ! i) / 2)) [0 ..< ?n]"])
    apply (rule exI [of _ ?rows])
    apply (rule exI [of _ s])
    using res s c_lt s0 kine_galrad_nth [OF assms(3)] by simp
qed


lemma resolve_toy_chain:
  "resolve_vescmethod ''williams2017'' toy_chain
     = Inr (Williams2017 [500, 520, 540] [0.2, 0.3, 0.4], [])"
  by (simp add: resolve_vescmethod_def np_genfromtxt_def rectangular_def column_def
      toy_chain_def)

text \<open>A table whose rows differ in length is refused when the file is read.\<close>

lemma resolve_ragged_table:
  "resolve_vescmethod ''williams2017''
     [[0, 0, 0, 0, 0, 500, 0.2], [0, 0, 0, 0, 0, 520, 0.3, 1]] = Inl ValueError
   \<and> column 5 [[0, 0, 0, 0, 0, 500, 0.2], [0, 0, 0, 0, 0, 520, 0.3, 1]] = Inl ValueError"
  by (simp add: resolve_vescmethod_def np_genfromtxt_def rectangular_def column_def)

theorem chain_escape_velocity_witness:
  "resolve_vescmethod ''williams2017'' toy_chain
     = Inr (Williams2017 [500, 520, 540] [0.2, 0.3, 0.4], [])
   \<and> py ''HVS1'' \<noteq> []
   \<and> (\<exists>S kine_vesc.
         star_arrays_of identity3 1 1 False False [toy_kine_row]
           (map (\<lambda>i. toy_solar_row) [0 ..< length [toy_kine_row]]) = Inr S
       \<and> fst (kine_vesc_of toy_env (Williams2017 [500, 520, 540] [0.2, 0.3, 0.4])
                (py ''HVS1'') (length [toy_kine_row]) S 7) = Inr kine_vesc
       \<and> kine_vesc ! 0 = 540 * np_power toy_env (kine_galrad S ! 0 / 8) (- 0.4 / 2))"
proof -
  have ne: "py ''HVS1'' \<noteq> []"
    by (simp add: py_def)
  have len: "length (map (\<lambda>i. toy_solar_row) [0 ..< length [toy_kine_row]]) = length [toy_kine_row]"
    by simp
  from star_arrays_of_same_length [OF len, of identity3 1 1 False False]
  obtain S where S: "star_arrays_of identity3 1 1 False False [toy_kine_row]
           (map (\<lambda>i. toy_solar_row) [0 ..< length [toy_kine_row]]) = Inr S"
    by blast
  from chain_escape_velocity [OF resolve_toy_chain ne S, of toy_env 7]
  obtain kine_vesc rows s where
    v: "fst (kine_vesc_of toy_env (Williams2017 [500, 520, 540] [0.2, 0.3, 0.4])
                (py ''HVS1'') (length [toy_kine_row]) S 7) = Inr kine_vesc"
    and s: "craft_seed (py ''HVS1'') = Inr s"
    and rows: "rows = map (\<lambda>j. draw (rng toy_env) (seeded (rng toy_env) s) (length toy_chain)
                  (length [toy_kine_row]) j mod length toy_chain) [0 ..< length [toy_kine_row]]"
    and e: "kine_vesc ! 0 =
             toy_chain ! (rows ! 0) ! 5
               * np_power toy_env (kine_galrad S ! 0 / s0 toy_solar_row)
                   (- (toy_chain ! (rows ! 0) ! 6) / 2)"
    by auto
  from s have s': "s = 1630208000" by (simp add: craft_seed_HVS1)
  have r0: "rows ! 0 = 2"
    by (simp add: rows s' toy_env_def toy_rng_def toy_chain_def)
  have "kine_vesc ! 0 = 540 * np_power toy_env (kine_galrad S ! 0 / 8) (- 0.4 / 2)"
    using e by (simp add: r0 toy_chain_def toy_solar_row_def)
  with resolve_toy_chain ne S v show ?thesis by blast
qed

subsection \<open>The credible interval\<close>

text \<open>
  C2. The posterior is Beta(\<open>kine_bound_n + 0.5\<close>, \<open>kine_samples_n - kine_bound_n + 0.5\<close>) and
  the median is its quantile at 0.5, but the two bounds are its quantiles at \<open>coverage/2\<close> and
  \<open>1 - coverage/2\<close>, that is 0.34135 and 0.65865, not at \<open>(1 - coverage)/2 = 0.15865\<close> and
  \<open>1 - (1 - coverage)/2 = 0.84135\<close>: the interval reported covers 31.73% of the posterior,
  not 68.27%. With 1500 bound samples of 2000 the three calls are as below; for a quantile
  function that returns its probability, the lower error reported differs from the one of
  the 68.27% interval.
\<close>

theorem credible_interval_levels:
  "percentile_levels confidenceintervalcoverage = [0.34135, 0.5, 0.65865]
   \<and> kine_bound_percentiles ppf 2000 1500
       = [ppf 0.34135 1500.5 500.5, ppf 0.5 1500.5 500.5, ppf 0.65865 1500.5 500.5]
   \<and> (1 - confidenceintervalcoverage) / 2 = 0.15865
   \<and> 1 - (1 - confidenceintervalcoverage) / 2 = 0.84135
   \<and> kine_bound_percentiles (\<lambda>q a b. q) 2000 1500 ! 1 - kine_bound_percentiles (\<lambda>q a b. q) 2000 1500 ! 0
       \<noteq> 0.5 - (1 - confidenceintervalcoverage) / 2"
  by (simp add: percentile_levels_def confidenceintervalcoverage_def kine_bound_percentiles_def
      kine_betaa_def kine_betab_def)

lemma kine_bound_n_le:
  assumes "kine_bound_n_of vesc vgrf = Inr n" "length vesc = length vgrf"
  shows "n \<le> length vgrf"
proof -
  from assms have "n = length (filter (\<lambda>b. b) (map2 (\<lambda>e v. e > v) vesc vgrf))"
    by (simp add: kine_bound_n_of_def zip_with_same_length)
  also have "\<dots> \<le> length (map2 (\<lambda>e v. e > v) vesc vgrf)"
    by (rule length_filter_le)
  finally show ?thesis using assms(2) by simp
qed

text \<open>
  C7. For \<open>0 \<le> kine_bound_n \<le> kine_samples_n\<close> and \<open>kine_samples_n \<ge> 1\<close> the shape parameters
  are positive and the three probabilities are in increasing order, so that the three
  percentiles are in order for every \<open>beta.ppf\<close> that does not decrease in the probability.
\<close>

theorem credible_interval_ordered:
  assumes "quantile_monotone ppf"
    and "kine_bound_n \<le> kine_samples_n" and "1 \<le> kine_samples_n"
  shows "kine_bound_percentiles ppf kine_samples_n kine_bound_n ! 0
           \<le> kine_bound_percentiles ppf kine_samples_n kine_bound_n ! 1
       \<and> kine_bound_percentiles ppf kine_samples_n kine_bound_n ! 1
           \<le> kine_bound_percentiles ppf kine_samples_n kine_bound_n ! 2"
proof -
  have a: "0 < kine_betaa kine_bound_n" by (simp add: kine_betaa_def)
  have b: "0 < kine_betab kine_samples_n kine_bound_n"
    using assms(2) by (simp add: kine_betab_def)
  from assms(1) a b have m: "0 \<le> q1 \<Longrightarrow> q1 \<le> q2 \<Longrightarrow> q2 \<le> 1 \<Longrightarrow>
      ppf q1 (kine_betaa kine_bound_n) (kine_betab kine_samples_n kine_bound_n)
        \<le> ppf q2 (kine_betaa kine_bound_n) (kine_betab kine_samples_n kine_bound_n)" for q1 q2
    unfolding quantile_monotone_def by blast
  show ?thesis
    by (simp add: kine_bound_percentiles_def percentile_levels_def confidenceintervalcoverage_def m)
qed

theorem credible_interval_ordered_witness:
  "quantile_monotone (\<lambda>q a b. q) \<and> (0 :: nat) \<le> 1 \<and> (1 :: nat) \<le> 1
   \<and> kine_bound_percentiles (\<lambda>q a b. q) 1 0 = [0.34135, 0.5, 0.65865]
   \<and> kine_bound_percentiles (\<lambda>q a b. q) 1 0 ! 0 \<le> kine_bound_percentiles (\<lambda>q a b. q) 1 0 ! 1
   \<and> kine_bound_percentiles (\<lambda>q a b. q) 1 0 ! 1 \<le> kine_bound_percentiles (\<lambda>q a b. q) 1 0 ! 2"
proof -
  have q: "quantile_monotone (\<lambda>q a b. q)" by (simp add: quantile_monotone_def)
  have v: "kine_bound_percentiles (\<lambda>q a b. q) 1 0 = [0.34135, 0.5, 0.65865]"
    by (simp add: kine_bound_percentiles_def percentile_levels_def confidenceintervalcoverage_def)
  from credible_interval_ordered [OF q, of 0 1] q v show ?thesis by simp
qed

subsection \<open>The loop over the catalogue\<close>

lemma add_entry_toy: "add_entry toy_env [(py ''HVS1'', e)] (py ''HVS1'') = Inr (py ''HVS1'')"
  by (simp add: toy_env_def)

text \<open>
  C8. An entry that is found and has no right ascension, or no declination, or neither a
  photometric distance nor a parallax, is skipped: the loop goes on with the next key in the
  same state, so that no quantity is written and no warning logged for it. Alone in the
  catalogue, it leaves the state as it was.
\<close>

theorem lacking_entry_skipped:
  assumes "add_entry E (entries w) oname = Inr name"
    and "map_of (entries w) name = Some e"
    and "RA e = None \<or> DEC e = None \<or> (LUM_DIST e = None \<and> PARALLAX e = None)"
  shows "star_loop E policy (oname # keys) w = star_loop E policy keys w
       \<and> star_loop E policy [oname] w = (None, w)"
  using assms by (simp add: lacks_data_def)

theorem lacking_entry_skipped_witness:
  "add_entry toy_env (entries (run_of [(py ''HVS1'', empty_entry)])) (py ''HVS1'') = Inr (py ''HVS1'')
   \<and> map_of (entries (run_of [(py ''HVS1'', empty_entry)])) (py ''HVS1'') = Some empty_entry
   \<and> RA empty_entry = None
   \<and> star_loop toy_env Galpy [py ''HVS1''] (run_of [(py ''HVS1'', empty_entry)])
       = (None, run_of [(py ''HVS1'', empty_entry)])"
proof -
  have a: "add_entry toy_env (entries (run_of [(py ''HVS1'', empty_entry)])) (py ''HVS1'')
      = Inr (py ''HVS1'')"
    by (simp add: run_of_def add_entry_toy)
  have b: "map_of (entries (run_of [(py ''HVS1'', empty_entry)])) (py ''HVS1'') = Some empty_entry"
    by (simp add: run_of_def)
  have c: "RA empty_entry = None" by (simp add: empty_entry_def)
  then have c': "RA empty_entry = None \<or> DEC empty_entry = None
      \<or> (LUM_DIST empty_entry = None \<and> PARALLAX empty_entry = None)" by simp
  from lacking_entry_skipped [OF a b c', of Galpy "[]"] a b c show ?thesis by simp
qed

subsection \<open>An unrecognised escape-velocity policy\<close>

text \<open>Under the policy of the warning branch the body of the loop never reaches its writes.\<close>

lemma process_star_unresolved:
  "\<exists>err g1. process_star E Unresolved name e g = (Inl err, g1)"
  by (auto simp: process_star_def kine_vesc_of_def Let_def split: sum.splits prod.splits)







end
